theory Spec2Isabelle
  imports Main "HOL-Library.Signed_Division"
begin

section \<open>Errors\<close>

text \<open>
  The package has two sentinel errors, \<open>errRecordNotFound\<close> and \<open>errRecordNotSupported\<close>,
  and builds the others with \<open>fmt.Errorf\<close>. Three of those wrap a cause with \<open>%w\<close>.
  Every error made outside the package (net/http, encoding/json, net/url, net/netip,
  libdns) is \<open>External\<close> with its message: such an error can never be one of the two
  sentinels, which are unexported variables of this package.
\<close>

datatype error =
    errRecordNotFound
  | errRecordNotSupported
  | InvalidStatus int
  | MissingToken
  | ErrorStatus int string
  | NoSuchDomain string
  | FailedToParseRecord error
  | RecordNilAfterParsing
  | FailedToCreateJSONBody error
  | UnableToCreateRequest error
  | External string

text \<open>\<open>errors.Is\<close>: the error itself or any error on its \<open>%w\<close> chain equals the target.\<close>

fun errors_Is :: "error \<Rightarrow> error \<Rightarrow> bool" where
  "errors_Is (FailedToParseRecord e) t = (FailedToParseRecord e = t \<or> errors_Is e t)"
| "errors_Is (FailedToCreateJSONBody e) t = (FailedToCreateJSONBody e = t \<or> errors_Is e t)"
| "errors_Is (UnableToCreateRequest e) t = (UnableToCreateRequest e = t \<or> errors_Is e t)"
| "errors_Is e t = (e = t)"

section \<open>Data model\<close>

text \<open>
  \<open>time.Duration\<close> is an int64 count of nanoseconds; Go's \<open>int\<close> is taken as 64 bits.
  Both are \<open>int\<close> here, with the two's complement wrap-around written out
  (\<open>signed_take_bit 63\<close>) where the code multiplies.
\<close>

type_synonym Duration = int

definition Second :: Duration where
  "Second = 1000000000"

record conohaDNSRecord =
  UUID :: string
  Name :: string
  Type :: string
  Data :: string
  TTL :: int

record domain =
  domain_UUID :: string
  domain_Name :: string

record Provider =
  APITenantID :: string
  APIUserID :: string
  APIPassword :: string
  Region :: string

text \<open>
  The generic records of libdns. \<open>libdns.Record\<close> is an interface; its dynamic types are
  the structs \<open>Address\<close>, \<open>CNAME\<close> and \<open>TXT\<close> (name, TTL and the type-specific field) and
  every other implementation (\<open>MX\<close>, \<open>NS\<close>, \<open>SRV\<close>, \<open>CAA\<close>, \<open>ServiceBinding\<close>, the raw
  \<open>RR\<close>, ...), which the type switches of this package never look into: \<open>OtherRecord\<close>.
  The \<open>ProviderData\<close> field of the structs is neither read nor written by this package
  and is left out. A record in a list is never the nil interface.
\<close>

record RR =
  rr_Name :: string
  rr_TTL :: Duration
  rr_Type :: string
  rr_Data :: string

datatype ('ip, 'o) libdns_Record =
    Address string Duration 'ip
  | CNAME string Duration string
  | TXT string Duration string
  | OtherRecord 'o

section \<open>HTTP messages\<close>

datatype json =
    JString string
  | JNumber int
  | JArray "json list"
  | JObject "(string \<times> json) list"

text \<open>
  A parsed \<open>url.URL\<close>: the base it was parsed from and the path elements joined to it.
\<close>

type_synonym url = "string \<times> string list"

definition JoinPath :: "url \<Rightarrow> string list \<Rightarrow> url" where
  "JoinPath u elem = (fst u, snd u @ elem)"

text \<open>
  A request carries the JSON document that was encoded into its body (\<open>None\<close>: an empty
  body). A response carries its status, its headers under their canonical keys, the
  bytes \<open>io.ReadAll\<close> gets from its body and the error \<open>io.ReadAll\<close> ends with, if any.
\<close>

record request =
  Method :: string
  URL :: url
  Header :: "string \<rightharpoonup> string"
  Body :: "json option"

record response =
  StatusCode :: int
  RespHeader :: "string \<rightharpoonup> string list"
  RespBody :: string
  RespBodyErr :: "string option"

text \<open>\<open>http.Header.Get\<close>: the first value under the canonical form of the key, or \<open>""\<close>.\<close>

definition CanonicalMIMEHeaderKey_x_subject_token :: string where
  "CanonicalMIMEHeaderKey_x_subject_token = ''X-Subject-Token''"

definition Header_Get :: "(string \<rightharpoonup> string list) \<Rightarrow> string \<Rightarrow> string" where
  "Header_Get h key = (case h key of Some (v # vs) \<Rightarrow> v | _ \<Rightarrow> [])"

section \<open>The collaborators\<close>

text \<open>
  What the package calls and does not define is a parameter: \<open>netip.ParseAddr\<close>,
  \<open>netip.Addr.String\<close> and \<open>netip.Addr.Is6\<close> over a type \<open>'ip\<close> of addresses; libdns on
  the record types this package does not know (\<open>OtherRR\<close> is their method \<open>RR()\<close>,
  \<open>ParseOther\<close> is \<open>RR.Parse\<close> on their type strings, which yields one of them, nil or an
  error); the float arithmetic of \<open>time.Duration.Seconds\<close> off whole seconds;
  \<open>url.Parse\<close>, the JSON encoder and \<open>http.NewRequestWithContext\<close> as the error they
  return, if any; \<open>json.Unmarshal\<close> into the three response types; and the network,
  \<open>Do\<close>, which answers a request with a transport error or a response and changes the
  remote world \<open>'w\<close>.
\<close>

record ('ip, 'o, 'w) env =
  ParseAddr :: "string \<Rightarrow> string + 'ip"
  AddrString :: "'ip \<Rightarrow> string"
  Is6 :: "'ip \<Rightarrow> bool"
  OtherRR :: "'o \<Rightarrow> RR"
  ParseOther :: "RR \<Rightarrow> string + 'o option"
  SecondsFloat :: "int \<Rightarrow> int \<Rightarrow> int"
  url_Parse :: "string \<Rightarrow> string option"
  EncodeErr :: "json \<Rightarrow> string option"
  NewRequestErr :: "string \<Rightarrow> url \<Rightarrow> string option"
  Unmarshal_domainList :: "string \<Rightarrow> string + domain list"
  Unmarshal_recordList :: "string \<Rightarrow> string + conohaDNSRecord list"
  Unmarshal_record :: "string \<Rightarrow> string + conohaDNSRecord"
  Do :: "request \<Rightarrow> 'w \<Rightarrow> (string + response) \<times> 'w"

text \<open>
  The state a call runs in: the remote world and the trace of the requests sent so far,
  oldest first. \<open>HTTPClient_Do\<close> is \<open>http.Client.Do\<close>: it sends the request, which the
  trace records, and returns what the network answers.
\<close>

type_synonym 'w state = "'w \<times> request list"

definition HTTPClient_Do ::
  "('ip, 'o, 'w) env \<Rightarrow> request \<Rightarrow> 'w state \<Rightarrow> (string + response) \<times> 'w state" where
  "HTTPClient_Do E req s =
     (case Do E req (fst s) of (r, w') \<Rightarrow> (r, (w', snd s @ [req])))"

section \<open>Record translator\<close>

text \<open>
  libdns, on the three record types the package supports, as the specification describes
  the collaborator (section 4.3). \<open>Record_RR\<close> is the method \<open>RR()\<close>: an address is typed
  \<open>A\<close> or \<open>AAAA\<close> by the family of its IP and carries the text form of the IP, a
  canonical name is typed \<open>CNAME\<close> and carries its target, a text record is typed \<open>TXT\<close>
  and carries its text. \<open>RR_Parse\<close> is \<open>RR.Parse\<close>: it dispatches on the type string,
  parses the data of an \<open>A\<close> or \<open>AAAA\<close> record as an IP, and takes name and TTL over
  unchanged.
\<close>

fun Record_RR :: "('ip, 'o, 'w) env \<Rightarrow> ('ip, 'o) libdns_Record \<Rightarrow> RR" where
  "Record_RR E (Address n t ip) =
     \<lparr>rr_Name = n, rr_TTL = t, rr_Type = (if Is6 E ip then ''AAAA'' else ''A''),
      rr_Data = AddrString E ip\<rparr>"
| "Record_RR E (CNAME n t target) =
     \<lparr>rr_Name = n, rr_TTL = t, rr_Type = ''CNAME'', rr_Data = target\<rparr>"
| "Record_RR E (TXT n t txt) =
     \<lparr>rr_Name = n, rr_TTL = t, rr_Type = ''TXT'', rr_Data = txt\<rparr>"
| "Record_RR E (OtherRecord x) = OtherRR E x"

definition RR_Parse ::
  "('ip, 'o, 'w) env \<Rightarrow> RR \<Rightarrow> string + ('ip, 'o) libdns_Record option" where
  "RR_Parse E rr =
     (if rr_Type rr = ''A'' \<or> rr_Type rr = ''AAAA'' then
        (case ParseAddr E (rr_Data rr) of
           Inl m \<Rightarrow> Inl (''invalid IP address: '' @ m)
         | Inr ip \<Rightarrow> Inr (Some (Address (rr_Name rr) (rr_TTL rr) ip)))
      else if rr_Type rr = ''CNAME'' then
        Inr (Some (CNAME (rr_Name rr) (rr_TTL rr) (rr_Data rr)))
      else if rr_Type rr = ''TXT'' then
        Inr (Some (TXT (rr_Name rr) (rr_TTL rr) (rr_Data rr)))
      else
        (case ParseOther E rr of
           Inl m \<Rightarrow> Inl m
         | Inr None \<Rightarrow> Inr None
         | Inr (Some x) \<Rightarrow> Inr (Some (OtherRecord x))))"

text \<open>
  \<open>int(d.Seconds())\<close>. \<open>Seconds\<close> is \<open>float64(d / Second) + float64(d % Second) / 1e9\<close>,
  with Go's truncating division. On a whole number of seconds the remainder is 0 and
  the quotient, below \<open>2^53\<close> in absolute value, is exact as a float64, so the conversion
  back to \<open>int\<close> returns the quotient. Off whole seconds the rounded sum is the
  collaborator's.
\<close>

definition Seconds_int :: "('ip, 'o, 'w) env \<Rightarrow> Duration \<Rightarrow> int" where
  "Seconds_int E d =
     (let sec = d sdiv Second; nsec = d smod Second
      in if nsec = 0 then sec else SecondsFloat E sec nsec)"

text \<open>\<open>time.Duration(n) * time.Second\<close>: an int64 product, which wraps.\<close>

definition Duration_of_seconds :: "int \<Rightarrow> Duration" where
  "Duration_of_seconds n = signed_take_bit 63 (n * Second)"

definition convertToLibdnsRecord ::
  "('ip, 'o, 'w) env \<Rightarrow> conohaDNSRecord \<Rightarrow> error + ('ip, 'o) libdns_Record" where
  "convertToLibdnsRecord E rec =
     (let ttl = Duration_of_seconds (TTL rec)
      in if Type rec = ''A'' \<or> Type rec = ''AAAA'' then
           (case ParseAddr E (Data rec) of
              Inl m \<Rightarrow> Inl (External m)
            | Inr ip \<Rightarrow> Inr (Address (Name rec) ttl ip))
         else if Type rec = ''CNAME'' then Inr (CNAME (Name rec) ttl (Data rec))
         else if Type rec = ''TXT'' then Inr (TXT (Name rec) ttl (Data rec))
         else Inl errRecordNotSupported)"

definition convertToConohaDNSRecord ::
  "('ip, 'o, 'w) env \<Rightarrow> ('ip, 'o) libdns_Record \<Rightarrow> error + conohaDNSRecord" where
  "convertToConohaDNSRecord E rec =
     (let rr = Record_RR E rec
      in case RR_Parse E rr of
           Inl m \<Rightarrow> Inl (FailedToParseRecord (External m))
         | Inr None \<Rightarrow> Inl RecordNilAfterParsing
         | Inr (Some (Address n t ip)) \<Rightarrow>
             Inr \<lparr>UUID = [], Name = n, Type = rr_Type rr, Data = AddrString E ip,
                  TTL = Seconds_int E t\<rparr>
         | Inr (Some (CNAME n t target)) \<Rightarrow>
             Inr \<lparr>UUID = [], Name = n, Type = rr_Type rr, Data = target,
                  TTL = Seconds_int E t\<rparr>
         | Inr (Some (TXT n t txt)) \<Rightarrow>
             Inr \<lparr>UUID = [], Name = n, Type = rr_Type rr, Data = txt,
                  TTL = Seconds_int E t\<rparr>
         | Inr (Some (OtherRecord x)) \<Rightarrow> Inl errRecordNotSupported)"

section \<open>Requests\<close>

text \<open>
  The JSON documents the encoder writes for the two payload types, by their struct tags:
  \<open>uuid\<close> and \<open>ttl\<close> are \<open>omitempty\<close>, so an empty UUID and a zero TTL leave no field.
\<close>

definition json_conohaDNSRecord :: "conohaDNSRecord \<Rightarrow> json" where
  "json_conohaDNSRecord r =
     JObject ((if UUID r = [] then [] else [(''uuid'', JString (UUID r))]) @
              [(''name'', JString (Name r)), (''type'', JString (Type r)),
               (''data'', JString (Data r))] @
              (if TTL r = 0 then [] else [(''ttl'', JNumber (TTL r))]))"

definition json_identityRequest :: "string \<Rightarrow> string \<Rightarrow> string \<Rightarrow> json" where
  "json_identityRequest APITenantID' APIUserID' APIPassword' =
     JObject [(''auth'', JObject
       [(''identity'', JObject
          [(''methods'', JArray [JString ''password'']),
           (''password'', JObject
              [(''user'', JObject
                 [(''id'', JString APIUserID'), (''password'', JString APIPassword')])])]),
        (''scope'', JObject
          [(''project'', JObject [(''id'', JString APITenantID')])])])]"

definition newJSONRequest ::
  "('ip, 'o, 'w) env \<Rightarrow> string \<Rightarrow> url \<Rightarrow> json option \<Rightarrow> error + request" where
  "newJSONRequest E method endpoint payload =
     (case (case payload of None \<Rightarrow> None | Some j \<Rightarrow> EncodeErr E j) of
        Some m \<Rightarrow> Inl (FailedToCreateJSONBody (External m))
      | None \<Rightarrow>
          (case NewRequestErr E method endpoint of
             Some m \<Rightarrow> Inl (UnableToCreateRequest (External m))
           | None \<Rightarrow>
               (let h = [''Accept'' \<mapsto> ''application/json''];
                    h = (if payload \<noteq> None then h(''Content-Type'' \<mapsto> ''application/json'')
                         else h)
                in Inr \<lparr>Method = method, URL = endpoint, Header = h, Body = payload\<rparr>)))"

section \<open>Token issuer\<close>

record identifier' =
  id_baseURL :: url

definition newIdentifier :: "('ip, 'o, 'w) env \<Rightarrow> string \<Rightarrow> error + identifier'" where
  "newIdentifier E region =
     (let region = (if region = [] then ''c3j1'' else region);
          raw = ''https://identity.'' @ region @ ''.conoha.io''
      in case url_Parse E raw of
           Some m \<Rightarrow> Inl (External m)
         | None \<Rightarrow> Inr \<lparr>id_baseURL = (raw, [])\<rparr>)"

definition identifier_do ::
  "('ip, 'o, 'w) env \<Rightarrow> request \<Rightarrow> 'w state \<Rightarrow> (error + string) \<times> 'w state" where
  "identifier_do E req s =
     (case HTTPClient_Do E req s of
        (Inl m, s') \<Rightarrow> (Inl (External m), s')
      | (Inr resp, s') \<Rightarrow>
          if StatusCode resp \<noteq> 201 then (Inl (InvalidStatus (StatusCode resp)), s')
          else
            (let token = Header_Get (RespHeader resp) CanonicalMIMEHeaderKey_x_subject_token
             in if token = [] then (Inl MissingToken, s') else (Inr token, s')))"

definition getToken ::
  "('ip, 'o, 'w) env \<Rightarrow> identifier' \<Rightarrow> string \<Rightarrow> string \<Rightarrow> string \<Rightarrow> 'w state \<Rightarrow>
   (error + string) \<times> 'w state" where
  "getToken E c APITenantID' APIUserID' APIPassword' s =
     (let endpoint = JoinPath (id_baseURL c) [''v3'', ''auth'', ''tokens'']
      in case newJSONRequest E ''POST'' endpoint
                (Some (json_identityRequest APITenantID' APIUserID' APIPassword')) of
           Inl err \<Rightarrow> (Inl err, s)
         | Inr req \<Rightarrow> identifier_do E req s)"

section \<open>Record-service client\<close>

record dnsClient =
  token :: string
  baseURL :: url

definition newDnsClient :: "('ip, 'o, 'w) env \<Rightarrow> string \<Rightarrow> string \<Rightarrow> error + dnsClient" where
  "newDnsClient E region tok =
     (let region = (if region = [] then ''c3j1'' else region);
          raw = ''https://dns-service.'' @ region @ ''.conoha.io''
      in case url_Parse E raw of
           Some m \<Rightarrow> Inl (External m)
         | None \<Rightarrow> Inr \<lparr>token = tok, baseURL = (raw, [])\<rparr>)"

text \<open>
  \<open>dnsClient.do\<close>. It first puts the token, when the client holds one, into the
  \<open>X-Auth-Token\<close> header of the request (\<open>set_auth_token\<close>). The argument \<open>result\<close> is \<open>None\<close> for the nil result of the source and
  otherwise the decoder of the type the result points to; the value returned is what
  was decoded into it.
\<close>

definition set_auth_token :: "dnsClient \<Rightarrow> request \<Rightarrow> request" where
  "set_auth_token c req =
     (if token c \<noteq> [] then req\<lparr>Header := (Header req)(''X-Auth-Token'' \<mapsto> token c)\<rparr>
      else req)"

definition dnsClient_do ::
  "('ip, 'o, 'w) env \<Rightarrow> dnsClient \<Rightarrow> request \<Rightarrow> (string \<Rightarrow> string + 'a) option \<Rightarrow>
   'w state \<Rightarrow> (error + 'a option) \<times> 'w state" where
  "dnsClient_do E c req result s =
     (let req = set_auth_token c req
      in case HTTPClient_Do E req s of
           (Inl m, s') \<Rightarrow> (Inl (External m), s')
         | (Inr resp, s') \<Rightarrow>
             if StatusCode resp \<noteq> 200 \<and> StatusCode resp \<noteq> 204 then
               (Inl (ErrorStatus (StatusCode resp) (RespBody resp)), s')
             else
               (case result of
                  None \<Rightarrow> (Inr None, s')
                | Some unmarshal \<Rightarrow>
                    (case RespBodyErr resp of
                       Some m \<Rightarrow> (Inl (External m), s')
                     | None \<Rightarrow>
                         (case unmarshal (RespBody resp) of
                            Inl m \<Rightarrow> (Inl (External m), s')
                          | Inr v \<Rightarrow> (Inr (Some v), s')))))"

text \<open>
  The callers of \<open>do\<close> that pass a result return the struct it was decoded into: after a
  call without error that is the decoded value.
\<close>

definition decoded :: "(error + 'a option) \<times> 'w state \<Rightarrow> 'a \<Rightarrow> (error + 'a) \<times> 'w state" where
  "decoded r zero =
     (case r of
        (Inl err, s') \<Rightarrow> (Inl err, s')
      | (Inr None, s') \<Rightarrow> (Inr zero, s')
      | (Inr (Some v), s') \<Rightarrow> (Inr v, s'))"

definition getDomains ::
  "('ip, 'o, 'w) env \<Rightarrow> dnsClient \<Rightarrow> 'w state \<Rightarrow> (error + domain list) \<times> 'w state" where
  "getDomains E c s =
     (let endpoint = JoinPath (baseURL c) [''v1'', ''domains'']
      in case newJSONRequest E ''GET'' endpoint None of
           Inl err \<Rightarrow> (Inl err, s)
         | Inr req \<Rightarrow> decoded (dnsClient_do E c req (Some (Unmarshal_domainList E)) s) [])"

fun getDomainID_loop :: "domain list \<Rightarrow> string \<Rightarrow> error + string" where
  "getDomainID_loop [] domainName = Inl (NoSuchDomain domainName)"
| "getDomainID_loop (d # ds) domainName =
     (if domain_Name d = domainName then Inr (domain_UUID d)
      else getDomainID_loop ds domainName)"

definition getDomainID ::
  "('ip, 'o, 'w) env \<Rightarrow> dnsClient \<Rightarrow> string \<Rightarrow> 'w state \<Rightarrow> (error + string) \<times> 'w state" where
  "getDomainID E c domainName s =
     (case getDomains E c s of
        (Inl err, s') \<Rightarrow> (Inl err, s')
      | (Inr domainList, s') \<Rightarrow> (getDomainID_loop domainList domainName, s'))"

definition getRecords ::
  "('ip, 'o, 'w) env \<Rightarrow> dnsClient \<Rightarrow> string \<Rightarrow> 'w state \<Rightarrow>
   (error + conohaDNSRecord list) \<times> 'w state" where
  "getRecords E c domainID s =
     (let endpoint = JoinPath (baseURL c) [''v1'', ''domains'', domainID, ''records'']
      in case newJSONRequest E ''GET'' endpoint None of
           Inl err \<Rightarrow> (Inl err, s)
         | Inr req \<Rightarrow> decoded (dnsClient_do E c req (Some (Unmarshal_recordList E)) s) [])"

fun getRecordID_loop :: "conohaDNSRecord list \<Rightarrow> string \<Rightarrow> string \<Rightarrow> error + string" where
  "getRecordID_loop [] recordName recordType = Inl errRecordNotFound"
| "getRecordID_loop (r # rs) recordName recordType =
     (if Name r = recordName \<and> Type r = recordType then Inr (UUID r)
      else getRecordID_loop rs recordName recordType)"

definition getRecordID ::
  "('ip, 'o, 'w) env \<Rightarrow> dnsClient \<Rightarrow> string \<Rightarrow> string \<Rightarrow> string \<Rightarrow> 'w state \<Rightarrow>
   (error + string) \<times> 'w state" where
  "getRecordID E c domainID recordName recordType s =
     (case getRecords E c domainID s of
        (Inl err, s') \<Rightarrow> (Inl err, s')
      | (Inr recordList, s') \<Rightarrow> (getRecordID_loop recordList recordName recordType, s'))"

definition zero_conohaDNSRecord :: conohaDNSRecord where
  "zero_conohaDNSRecord = \<lparr>UUID = [], Name = [], Type = [], Data = [], TTL = 0\<rparr>"

definition createRecord ::
  "('ip, 'o, 'w) env \<Rightarrow> dnsClient \<Rightarrow> string \<Rightarrow> conohaDNSRecord \<Rightarrow> 'w state \<Rightarrow>
   (error + conohaDNSRecord) \<times> 'w state" where
  "createRecord E c domainID record s =
     (let endpoint = JoinPath (baseURL c) [''v1'', ''domains'', domainID, ''records'']
      in case newJSONRequest E ''POST'' endpoint (Some (json_conohaDNSRecord record)) of
           Inl err \<Rightarrow> (Inl err, s)
         | Inr req \<Rightarrow>
             decoded (dnsClient_do E c req (Some (Unmarshal_record E)) s) zero_conohaDNSRecord)"

definition updateRecord ::
  "('ip, 'o, 'w) env \<Rightarrow> dnsClient \<Rightarrow> string \<Rightarrow> string \<Rightarrow> conohaDNSRecord \<Rightarrow> 'w state \<Rightarrow>
   (error + conohaDNSRecord) \<times> 'w state" where
  "updateRecord E c domainID recordID record s =
     (let endpoint = JoinPath (baseURL c) [''v1'', ''domains'', domainID, ''records'', recordID];
          record = record\<lparr>TTL := 0\<rparr>
      in case newJSONRequest E ''PUT'' endpoint (Some (json_conohaDNSRecord record)) of
           Inl err \<Rightarrow> (Inl err, s)
         | Inr req \<Rightarrow>
             decoded (dnsClient_do E c req (Some (Unmarshal_record E)) s) zero_conohaDNSRecord)"

definition deleteRecord ::
  "('ip, 'o, 'w) env \<Rightarrow> dnsClient \<Rightarrow> string \<Rightarrow> string \<Rightarrow> 'w state \<Rightarrow>
   error option \<times> 'w state" where
  "deleteRecord E c domainID recordID s =
     (let endpoint = JoinPath (baseURL c) [''v1'', ''domains'', domainID, ''records'', recordID]
      in case newJSONRequest E ''DELETE'' endpoint None of
           Inl err \<Rightarrow> (Some err, s)
         | Inr req \<Rightarrow>
             (case dnsClient_do E c req (None :: (string \<Rightarrow> string + unit) option) s of
                (Inl err, s') \<Rightarrow> (Some err, s')
              | (Inr v, s') \<Rightarrow> (None, s')))"

section \<open>Provider\<close>

text \<open>
  The four operations hold the provider's mutex from entry to return, so the calls on one
  provider run one after another; a call is modelled on its own.
\<close>

definition initClient ::
  "('ip, 'o, 'w) env \<Rightarrow> Provider \<Rightarrow> 'w state \<Rightarrow> (error + dnsClient) \<times> 'w state" where
  "initClient E p s =
     (case newIdentifier E (Region p) of
        Inl err \<Rightarrow> (Inl err, s)
      | Inr identifier \<Rightarrow>
          (case getToken E identifier (APITenantID p) (APIUserID p) (APIPassword p) s of
             (Inl err, s') \<Rightarrow> (Inl err, s')
           | (Inr tok, s') \<Rightarrow> (newDnsClient E (Region p) tok, s')))"

fun GetRecords_loop ::
  "('ip, 'o, 'w) env \<Rightarrow> conohaDNSRecord list \<Rightarrow> ('ip, 'o) libdns_Record list \<Rightarrow>
   error + ('ip, 'o) libdns_Record list" where
  "GetRecords_loop E [] libRecords = Inr libRecords"
| "GetRecords_loop E (record # rest) libRecords =
     (case convertToLibdnsRecord E record of
        Inl err \<Rightarrow>
          if err = errRecordNotSupported then GetRecords_loop E rest libRecords
          else Inl err
      | Inr libRecord \<Rightarrow> GetRecords_loop E rest (libRecords @ [libRecord]))"

definition GetRecords ::
  "('ip, 'o, 'w) env \<Rightarrow> Provider \<Rightarrow> string \<Rightarrow> 'w state \<Rightarrow>
   (error + ('ip, 'o) libdns_Record list) \<times> 'w state" where
  "GetRecords E p zone s =
     (case initClient E p s of
        (Inl err, s1) \<Rightarrow> (Inl err, s1)
      | (Inr c, s1) \<Rightarrow>
          (case getDomainID E c zone s1 of
             (Inl err, s2) \<Rightarrow> (Inl err, s2)
           | (Inr domainID, s2) \<Rightarrow>
               (case getRecords E c domainID s2 of
                  (Inl err, s3) \<Rightarrow> (Inl err, s3)
                | (Inr rawRecordList, s3) \<Rightarrow> (GetRecords_loop E rawRecordList [], s3))))"

text \<open>
  The loops of the three writing operations return the error that stopped them, or
  \<open>None\<close> when every record went through. \<open>SetRecords_step\<close> and
  \<open>DeleteRecords_step\<close> are the bodies of the loops of \<open>SetRecords\<close> and
  \<open>DeleteRecords\<close>: one pass for one record.
\<close>

fun AppendRecords_loop ::
  "('ip, 'o, 'w) env \<Rightarrow> dnsClient \<Rightarrow> string \<Rightarrow> ('ip, 'o) libdns_Record list \<Rightarrow> 'w state \<Rightarrow>
   error option \<times> 'w state" where
  "AppendRecords_loop E c domainID [] s = (None, s)"
| "AppendRecords_loop E c domainID (rec # rest) s =
     (case convertToConohaDNSRecord E rec of
        Inl err \<Rightarrow> (Some err, s)
      | Inr rawRecord \<Rightarrow>
          (case createRecord E c domainID rawRecord s of
             (Inl err, s') \<Rightarrow> (Some err, s')
           | (Inr created, s') \<Rightarrow> AppendRecords_loop E c domainID rest s'))"

definition AppendRecords ::
  "('ip, 'o, 'w) env \<Rightarrow> Provider \<Rightarrow> string \<Rightarrow> ('ip, 'o) libdns_Record list \<Rightarrow> 'w state \<Rightarrow>
   (error + ('ip, 'o) libdns_Record list) \<times> 'w state" where
  "AppendRecords E p zone records s =
     (case initClient E p s of
        (Inl err, s1) \<Rightarrow> (Inl err, s1)
      | (Inr c, s1) \<Rightarrow>
          (case getDomainID E c zone s1 of
             (Inl err, s2) \<Rightarrow> (Inl err, s2)
           | (Inr domainID, s2) \<Rightarrow>
               (case AppendRecords_loop E c domainID records s2 of
                  (Some err, s3) \<Rightarrow> (Inl err, s3)
                | (None, s3) \<Rightarrow> (Inr records, s3))))"

definition SetRecords_step ::
  "('ip, 'o, 'w) env \<Rightarrow> dnsClient \<Rightarrow> string \<Rightarrow> ('ip, 'o) libdns_Record \<Rightarrow> 'w state \<Rightarrow>
   error option \<times> 'w state" where
  "SetRecords_step E c domainID rec s =
     (case convertToConohaDNSRecord E rec of
        Inl err \<Rightarrow> (Some err, s)
      | Inr converted \<Rightarrow>
          (case getRecordID E c domainID (Name converted) (Type converted) s of
             (Inl err, s1) \<Rightarrow>
               if errors_Is err errRecordNotFound then
                 (case createRecord E c domainID converted s1 of
                    (Inl err', s2) \<Rightarrow> (Some err', s2)
                  | (Inr created, s2) \<Rightarrow> (None, s2))
               else (Some err, s1)
           | (Inr recordID, s1) \<Rightarrow>
               (case updateRecord E c domainID recordID converted s1 of
                  (Inl err, s2) \<Rightarrow> (Some err, s2)
                | (Inr updated, s2) \<Rightarrow> (None, s2))))"

fun SetRecords_loop ::
  "('ip, 'o, 'w) env \<Rightarrow> dnsClient \<Rightarrow> string \<Rightarrow> ('ip, 'o) libdns_Record list \<Rightarrow> 'w state \<Rightarrow>
   error option \<times> 'w state" where
  "SetRecords_loop E c domainID [] s = (None, s)"
| "SetRecords_loop E c domainID (rec # rest) s =
     (case SetRecords_step E c domainID rec s of
        (Some err, s') \<Rightarrow> (Some err, s')
      | (None, s') \<Rightarrow> SetRecords_loop E c domainID rest s')"

definition SetRecords ::
  "('ip, 'o, 'w) env \<Rightarrow> Provider \<Rightarrow> string \<Rightarrow> ('ip, 'o) libdns_Record list \<Rightarrow> 'w state \<Rightarrow>
   (error + ('ip, 'o) libdns_Record list) \<times> 'w state" where
  "SetRecords E p zone records s =
     (case initClient E p s of
        (Inl err, s1) \<Rightarrow> (Inl err, s1)
      | (Inr c, s1) \<Rightarrow>
          (case getDomainID E c zone s1 of
             (Inl err, s2) \<Rightarrow> (Inl err, s2)
           | (Inr domainID, s2) \<Rightarrow>
               (case SetRecords_loop E c domainID records s2 of
                  (Some err, s3) \<Rightarrow> (Inl err, s3)
                | (None, s3) \<Rightarrow> (Inr records, s3))))"

definition DeleteRecords_step ::
  "('ip, 'o, 'w) env \<Rightarrow> dnsClient \<Rightarrow> string \<Rightarrow> ('ip, 'o) libdns_Record \<Rightarrow> 'w state \<Rightarrow>
   error option \<times> 'w state" where
  "DeleteRecords_step E c domainID rec s =
     (case convertToConohaDNSRecord E rec of
        Inl err \<Rightarrow> (Some err, s)
      | Inr converted \<Rightarrow>
          (case getRecordID E c domainID (Name converted) (Type converted) s of
             (Inl err, s1) \<Rightarrow> (Some err, s1)
           | (Inr recordID, s1) \<Rightarrow> deleteRecord E c domainID recordID s1))"

fun DeleteRecords_loop ::
  "('ip, 'o, 'w) env \<Rightarrow> dnsClient \<Rightarrow> string \<Rightarrow> ('ip, 'o) libdns_Record list \<Rightarrow> 'w state \<Rightarrow>
   error option \<times> 'w state" where
  "DeleteRecords_loop E c domainID [] s = (None, s)"
| "DeleteRecords_loop E c domainID (rec # rest) s =
     (case DeleteRecords_step E c domainID rec s of
        (Some err, s') \<Rightarrow> (Some err, s')
      | (None, s') \<Rightarrow> DeleteRecords_loop E c domainID rest s')"

definition DeleteRecords ::
  "('ip, 'o, 'w) env \<Rightarrow> Provider \<Rightarrow> string \<Rightarrow> ('ip, 'o) libdns_Record list \<Rightarrow> 'w state \<Rightarrow>
   (error + ('ip, 'o) libdns_Record list) \<times> 'w state" where
  "DeleteRecords E p zone records s =
     (case initClient E p s of
        (Inl err, s1) \<Rightarrow> (Inl err, s1)
      | (Inr c, s1) \<Rightarrow>
          (case getDomainID E c zone s1 of
             (Inl err, s2) \<Rightarrow> (Inl err, s2)
           | (Inr domainID, s2) \<Rightarrow>
               (case DeleteRecords_loop E c domainID records s2 of
                  (Some err, s3) \<Rightarrow> (Inl err, s3)
                | (None, s3) \<Rightarrow> (Inr records, s3))))"

section \<open>A small remote service\<close>

text \<open>
  A concrete environment on which the operations can be run. There are two
  addresses, \<open>192.0.2.1\<close> and \<open>2001:db8::1\<close>, and the zero \<open>netip.Addr\<close>, which is no
  address: its text form is \<open>invalid IP\<close>, which does not parse. The other record types
  are raw \<open>RR\<close>s that parse to themselves, but for an \<open>MX\<close> record with empty data, which
  libdns rejects as malformed. The remote holds the domain \<open>example.localhost\<close> (id \<open>d1\<close>) with four
  records, two of them under the same name and type, and the domain \<open>broken.localhost\<close>
  (id \<open>d2\<close>) whose listing has, between an \<open>MX\<close> and a \<open>TXT\<close> record, an \<open>A\<close> record
  with data that is no address. Its world is one bit: whether record \<open>r1\<close> has been deleted. The identity service gives a
  token for the password \<open>secret\<close>, answers 201 without a token header for the password
  \<open>headerless\<close> and 401 otherwise. Creating a record answers 200 in the first domain
  and 201 in the second.
\<close>

datatype demo_addr = Addr4 | Addr6 | AddrZero

definition demo_r1 :: conohaDNSRecord where
  "demo_r1 = \<lparr>UUID = ''r1'', Name = ''test'', Type = ''TXT'', Data = ''testval1'', TTL = 1200\<rparr>"

definition demo_r2 :: conohaDNSRecord where
  "demo_r2 = \<lparr>UUID = ''r2'', Name = ''www'', Type = ''A'', Data = ''192.0.2.1'', TTL = 300\<rparr>"

definition demo_r3 :: conohaDNSRecord where
  "demo_r3 = \<lparr>UUID = ''r3'', Name = ''mail'', Type = ''MX'', Data = ''10 mx'', TTL = 300\<rparr>"

definition demo_r4 :: conohaDNSRecord where
  "demo_r4 = \<lparr>UUID = ''r4'', Name = ''www'', Type = ''A'', Data = ''192.0.2.1'', TTL = 60\<rparr>"

definition demo_bad :: conohaDNSRecord where
  "demo_bad = \<lparr>UUID = ''b1'', Name = ''x'', Type = ''A'', Data = ''no-ip'', TTL = 0\<rparr>"

definition demo_ParseAddr :: "string \<Rightarrow> string + demo_addr" where
  "demo_ParseAddr x =
     (if x = ''192.0.2.1'' then Inr Addr4
      else if x = ''2001:db8::1'' then Inr Addr6
      else Inl ''unable to parse IP'')"

fun demo_AddrString :: "demo_addr \<Rightarrow> string" where
  "demo_AddrString Addr4 = ''192.0.2.1''"
| "demo_AddrString Addr6 = ''2001:db8::1''"
| "demo_AddrString AddrZero = ''invalid IP''"

definition demo_response :: "int \<Rightarrow> string \<Rightarrow> response" where
  "demo_response code body =
     \<lparr>StatusCode = code, RespHeader = Map.empty, RespBody = body, RespBodyErr = None\<rparr>"

definition demo_Do :: "request \<Rightarrow> bool \<Rightarrow> (string + response) \<times> bool" where
  "demo_Do req deleted =
     (let path = snd (URL req)
      in if Method req = ''POST'' \<and> path = [''v3'', ''auth'', ''tokens''] then
           (if Body req = Some (json_identityRequest ''tenant'' ''user'' ''secret'') then
              (Inr ((demo_response 201 [])
                      \<lparr>RespHeader := [''X-Subject-Token'' \<mapsto> [''tok'']]\<rparr>), deleted)
            else if Body req = Some (json_identityRequest ''tenant'' ''user'' ''headerless'') then
              (Inr (demo_response 201 []), deleted)
            else (Inr (demo_response 401 ''unauthorized''), deleted))
         else if Method req = ''GET'' \<and> path = [''v1'', ''domains''] then
           (Inr (demo_response 200 ''domains''), deleted)
         else if Method req = ''GET'' \<and> path = [''v1'', ''domains'', ''d1'', ''records''] then
           (Inr (demo_response 200 (if deleted then ''records-r1'' else ''records'')), deleted)
         else if Method req = ''GET'' \<and> path = [''v1'', ''domains'', ''d2'', ''records''] then
           (Inr (demo_response 200 ''broken''), deleted)
         else if Method req = ''POST'' \<and> path = [''v1'', ''domains'', ''d1'', ''records''] then
           (Inr (demo_response 200 ''created''), deleted)
         else if Method req = ''POST'' \<and> path = [''v1'', ''domains'', ''d2'', ''records''] then
           (Inr (demo_response 201 ''created''), deleted)
         else if Method req = ''PUT'' \<and> path = [''v1'', ''domains'', ''d1'', ''records'', ''r1'']
           then (Inr (demo_response 200 ''updated''), deleted)
         else if Method req = ''DELETE'' \<and>
                 path = [''v1'', ''domains'', ''d1'', ''records'', ''r1''] then
           (Inr (demo_response 204 []), True)
         else (Inr (demo_response 404 ''not found''), deleted))"

definition demo :: "(demo_addr, RR, bool) env" where
  "demo =
     \<lparr>ParseAddr = demo_ParseAddr,
      AddrString = demo_AddrString,
      Is6 = (\<lambda>ip. ip = Addr6),
      OtherRR = (\<lambda>rr. rr),
      ParseOther = (\<lambda>rr.
        if rr_Type rr = ''MX'' \<and> rr_Data rr = [] then Inl ''malformed MX value''
        else Inr (Some rr)),
      SecondsFloat = (\<lambda>sec nsec. sec),
      url_Parse = (\<lambda>raw. None),
      EncodeErr = (\<lambda>j. None),
      NewRequestErr = (\<lambda>method u. None),
      Unmarshal_domainList = (\<lambda>body.
        if body = ''domains'' then
          Inr [\<lparr>domain_UUID = ''d1'', domain_Name = ''example.localhost''\<rparr>,
               \<lparr>domain_UUID = ''d2'', domain_Name = ''broken.localhost''\<rparr>]
        else Inl ''unexpected end of JSON input''),
      Unmarshal_recordList = (\<lambda>body.
        if body = ''records'' then Inr [demo_r3, demo_r1, demo_r2, demo_r4]
        else if body = ''records-r1'' then Inr [demo_r3, demo_r2, demo_r4]
        else if body = ''broken'' then Inr [demo_r3, demo_bad, demo_r1]
        else Inl ''unexpected end of JSON input''),
      Unmarshal_record = (\<lambda>body.
        if body = ''updated'' then Inr (demo_r1\<lparr>Data := ''updated'', TTL := 0\<rparr>)
        else if body = ''created'' then
          Inr \<lparr>UUID = ''r5'', Name = ''new'', Type = ''TXT'', Data = ''x'', TTL = 0\<rparr>
        else Inl ''unexpected end of JSON input''),
      Do = demo_Do\<rparr>"

definition demo_client :: dnsClient where
  "demo_client = \<lparr>token = ''tok'', baseURL = (''https://dns-service.c3j1.conoha.io'', [])\<rparr>"

definition demo_provider :: "string \<Rightarrow> Provider" where
  "demo_provider pw =
     \<lparr>APITenantID = ''tenant'', APIUserID = ''user'', APIPassword = pw, Region = []\<rparr>"

definition demo_mx :: RR where
  "demo_mx = \<lparr>rr_Name = ''mail'', rr_TTL = 300 * Second, rr_Type = ''MX'', rr_Data = ''10 mx''\<rparr>"

definition demo_mx_empty :: RR where
  "demo_mx_empty = \<lparr>rr_Name = ''mail'', rr_TTL = 0, rr_Type = ''MX'', rr_Data = []\<rparr>"

definition demo_put_r1 :: conohaDNSRecord where
  "demo_put_r1 = \<lparr>UUID = [], Name = ''test'', Type = ''TXT'', Data = ''updated'', TTL = 1200\<rparr>"

definition demo_identifier :: identifier' where
  "demo_identifier = \<lparr>id_baseURL = (''https://identity.c3j1.conoha.io'', [])\<rparr>"

definition demo_request :: "string \<Rightarrow> string list \<Rightarrow> request" where
  "demo_request method path =
     \<lparr>Method = method, URL = (''https://dns-service.c3j1.conoha.io'', path),
      Header = [''Accept'' \<mapsto> ''application/json''], Body = None\<rparr>"

definition demo_new :: conohaDNSRecord where
  "demo_new = \<lparr>UUID = [], Name = ''new'', Type = ''TXT'', Data = ''x'', TTL = 0\<rparr>"

definition demo_del :: conohaDNSRecord where
  "demo_del = \<lparr>UUID = [], Name = ''test'', Type = ''TXT'', Data = ''testval1'', TTL = 1200\<rparr>"

section \<open>Whole seconds\<close>

lemma whole_seconds_smod: "(n * Second) smod Second = 0"
  by (simp add: signed_modulo_int_def Second_def abs_mult)

lemma whole_seconds_sdiv: "(n * Second) sdiv Second = n"
  by (simp add: signed_divide_int_def Second_def abs_mult sgn_mult sgn_mult_abs)

lemma Seconds_int_whole: "Seconds_int E (n * Second) = n"
  by (simp add: Seconds_int_def whole_seconds_smod whole_seconds_sdiv)



section \<open>Running the small remote service\<close>

lemma demo_simps:
  "ParseAddr demo = demo_ParseAddr" "AddrString demo = demo_AddrString"
  "Is6 demo = (\<lambda>ip. ip = Addr6)" "OtherRR demo = (\<lambda>rr. rr)"
  "ParseOther demo =
     (\<lambda>rr. if rr_Type rr = ''MX'' \<and> rr_Data rr = [] then Inl ''malformed MX value''
           else Inr (Some rr))"
  "SecondsFloat demo = (\<lambda>sec nsec. sec)"
  "url_Parse demo = (\<lambda>raw. None)" "EncodeErr demo = (\<lambda>j. None)"
  "NewRequestErr demo = (\<lambda>method u. None)" "Do demo = demo_Do"
  by (simp_all add: demo_def)

lemma demo_Unmarshal_simps:
  "Unmarshal_domainList demo ''domains'' =
     Inr [\<lparr>domain_UUID = ''d1'', domain_Name = ''example.localhost''\<rparr>,
          \<lparr>domain_UUID = ''d2'', domain_Name = ''broken.localhost''\<rparr>]"
  "Unmarshal_recordList demo ''records'' = Inr [demo_r3, demo_r1, demo_r2, demo_r4]"
  "Unmarshal_recordList demo ''records-r1'' = Inr [demo_r3, demo_r2, demo_r4]"
  "Unmarshal_recordList demo ''broken'' = Inr [demo_r3, demo_bad, demo_r1]"
  "Unmarshal_record demo ''updated'' = Inr (demo_r1\<lparr>Data := ''updated'', TTL := 0\<rparr>)"
  "Unmarshal_record demo ''created'' =
     Inr \<lparr>UUID = ''r5'', Name = ''new'', Type = ''TXT'', Data = ''x'', TTL = 0\<rparr>"
  by (simp_all add: demo_def)

lemma demo_newJSONRequest:
  "newJSONRequest demo method endpoint payload =
     Inr \<lparr>Method = method, URL = endpoint,
          Header = (if payload \<noteq> None
                    then [''Accept'' \<mapsto> ''application/json'',
                          ''Content-Type'' \<mapsto> ''application/json'']
                    else [''Accept'' \<mapsto> ''application/json'']),
          Body = payload\<rparr>"
  by (cases payload) (simp_all add: newJSONRequest_def demo_simps)

lemma demo_initClient:
  "\<exists>s1. initClient demo (demo_provider ''secret'') s = (Inr demo_client, s1) \<and> fst s1 = fst s"
  by (simp add: initClient_def newIdentifier_def getToken_def demo_newJSONRequest
      identifier_do_def HTTPClient_Do_def demo_simps demo_Do_def JoinPath_def demo_provider_def
      demo_response_def Header_Get_def CanonicalMIMEHeaderKey_x_subject_token_def
      newDnsClient_def demo_client_def)

lemma demo_getDomainID:
  "\<exists>s2. getDomainID demo demo_client ''example.localhost'' s = (Inr ''d1'', s2) \<and>
         fst s2 = fst s"
  "\<exists>s2. getDomainID demo demo_client ''broken.localhost'' s = (Inr ''d2'', s2) \<and>
         fst s2 = fst s"
  by (simp_all add: getDomainID_def getDomains_def demo_newJSONRequest dnsClient_do_def
      set_auth_token_def HTTPClient_Do_def demo_simps demo_Do_def JoinPath_def demo_client_def
      demo_response_def decoded_def demo_Unmarshal_simps)

lemma demo_getRecords:
  "\<exists>s3. getRecords demo demo_client ''d1'' s =
           (Inr (if fst s then [demo_r3, demo_r2, demo_r4]
                 else [demo_r3, demo_r1, demo_r2, demo_r4]), s3) \<and> fst s3 = fst s"
  "\<exists>s3. getRecords demo demo_client ''d2'' s = (Inr [demo_r3, demo_bad, demo_r1], s3) \<and>
         fst s3 = fst s"
  by (simp_all add: getRecords_def demo_newJSONRequest dnsClient_do_def
      set_auth_token_def HTTPClient_Do_def demo_simps demo_Do_def JoinPath_def demo_client_def
      demo_response_def decoded_def demo_Unmarshal_simps)

lemma demo_convertToLibdnsRecord:
  "convertToLibdnsRecord demo demo_r1 = Inr (TXT ''test'' (1200 * Second) ''testval1'')"
  "convertToLibdnsRecord demo demo_r2 = Inr (Address ''www'' (300 * Second) Addr4)"
  "convertToLibdnsRecord demo demo_r3 = Inl errRecordNotSupported"
  "convertToLibdnsRecord demo demo_r4 = Inr (Address ''www'' (60 * Second) Addr4)"
  "convertToLibdnsRecord demo demo_bad = Inl (External ''unable to parse IP'')"
  by (simp_all add: convertToLibdnsRecord_def demo_r1_def demo_r2_def demo_r3_def demo_r4_def
      demo_bad_def demo_simps demo_ParseAddr_def Duration_of_seconds_def Second_def
      signed_take_bit_int_eq_self)

lemmas demo_eval =
  getRecordID_def getRecords_def updateRecord_def createRecord_def deleteRecord_def
  demo_newJSONRequest dnsClient_do_def set_auth_token_def HTTPClient_Do_def demo_simps
  demo_Do_def JoinPath_def demo_client_def demo_response_def decoded_def demo_Unmarshal_simps
  demo_r1_def demo_r2_def demo_r3_def demo_r4_def demo_put_r1_def demo_new_def

lemma demo_convertToConohaDNSRecord:
  "convertToConohaDNSRecord demo (TXT ''test'' (1200 * Second) ''updated'') = Inr demo_put_r1"
  "convertToConohaDNSRecord demo (TXT ''new'' 0 ''x'') = Inr demo_new"
  using Seconds_int_whole [of demo 1200] Seconds_int_whole [of demo 0]
  by (simp_all add: convertToConohaDNSRecord_def RR_Parse_def demo_put_r1_def demo_new_def)

lemma demo_getRecordID:
  "\<exists>s1. getRecordID demo demo_client ''d1'' ''test'' ''TXT'' s =
          (if fst s then Inl errRecordNotFound else Inr ''r1'', s1) \<and> fst s1 = fst s"
  "\<exists>s1. getRecordID demo demo_client ''d1'' ''new'' ''TXT'' s = (Inl errRecordNotFound, s1) \<and>
         fst s1 = fst s"
  "\<exists>s1. getRecordID demo demo_client ''dX'' ''test'' ''TXT'' s =
          (Inl (ErrorStatus 404 ''not found''), s1) \<and> fst s1 = fst s"
  by (simp_all add: demo_eval)

lemma demo_updateRecord:
  "\<exists>s2. updateRecord demo demo_client ''d1'' ''r1'' demo_put_r1 s =
          (Inr (demo_r1\<lparr>Data := ''updated'', TTL := 0\<rparr>), s2) \<and> fst s2 = fst s"
  by (simp add: demo_eval)

lemma demo_createRecord:
  "\<exists>s2. createRecord demo demo_client ''d1'' demo_new s =
          (Inr \<lparr>UUID = ''r5'', Name = ''new'', Type = ''TXT'', Data = ''x'', TTL = 0\<rparr>, s2) \<and>
         fst s2 = fst s"
  by (simp add: demo_eval json_conohaDNSRecord_def)

lemma demo_deleteRecord:
  "\<exists>s2. deleteRecord demo demo_client ''d1'' ''r1'' s = (None, s2) \<and> fst s2 = True"
  by (simp add: demo_eval)

lemma demo_convert_del:
  "convertToConohaDNSRecord demo (TXT ''test'' (1200 * Second) ''testval1'') = Inr demo_del"
  using Seconds_int_whole [of demo 1200]
  by (simp add: convertToConohaDNSRecord_def RR_Parse_def demo_del_def)

section \<open>Record translator: properties\<close>







lemma convertToLibdnsRecord_unsupported_iff:
  "convertToLibdnsRecord E raw = Inl errRecordNotSupported \<longleftrightarrow>
     Type raw \<notin> {''A'', ''AAAA'', ''CNAME'', ''TXT''}"
  by (simp add: convertToLibdnsRecord_def Let_def split: sum.splits)

lemma convertToConohaDNSRecord_unsupported_iff:
  "convertToConohaDNSRecord E rec = Inl errRecordNotSupported \<longleftrightarrow>
     (\<exists>x. RR_Parse E (Record_RR E rec) = Inr (Some (OtherRecord x)))"
  by (simp add: convertToConohaDNSRecord_def Let_def
      split: sum.splits option.splits libdns_Record.splits)

lemma convertToConohaDNSRecord_other:
  assumes "rr_Type (OtherRR E x) \<notin> {''A'', ''AAAA'', ''CNAME'', ''TXT''}"
  shows "convertToConohaDNSRecord E (OtherRecord x) =
           (case ParseOther E (OtherRR E x) of
              Inl m \<Rightarrow> Inl (FailedToParseRecord (External m))
            | Inr None \<Rightarrow> Inl RecordNilAfterParsing
            | Inr (Some y) \<Rightarrow> Inl errRecordNotSupported)"
  using assms
  by (simp add: convertToConohaDNSRecord_def RR_Parse_def split: sum.splits option.splits)

lemma convertToConohaDNSRecord_supported_input:
  "convertToConohaDNSRecord E (Address n t ip) \<noteq> Inl errRecordNotSupported"
  "convertToConohaDNSRecord E (CNAME n t target) \<noteq> Inl errRecordNotSupported"
  "convertToConohaDNSRecord E (TXT n t txt) \<noteq> Inl errRecordNotSupported"
  by (auto simp add: convertToConohaDNSRecord_def RR_Parse_def Let_def split: sum.splits)

text \<open>
  Claim C9, as amended. \<open>convertToLibdnsRecord\<close> returns \<open>errRecordNotSupported\<close> exactly
  when the type string of the raw record is none of \<open>A\<close>, \<open>AAAA\<close>, \<open>CNAME\<close> and \<open>TXT\<close>.
  \<open>convertToConohaDNSRecord\<close> returns it exactly when \<open>rec.RR().Parse()\<close> succeeds with a
  record that is none of address, canonical-name and text, so never on a record of these
  three types. On a record of another type, whose type string is none of the four, it
  returns what the parse decides: \<open>errRecordNotSupported\<close> when the parse yields a record,
  the wrapped parse error when the parse fails, the nil-record error when it yields nil.

  The claim as it was stated, that every generic record outside the supported set always
  gets \<open>errRecordNotSupported\<close>, fails on the code: an \<open>MX\<close> record with empty data is
  rejected by \<open>Parse\<close> and gets the wrapped parse error; the run after the theorem
  shows it.
\<close>

theorem unsupported_type_both_directions:
  "(convertToConohaDNSRecord E rec = Inl errRecordNotSupported \<longleftrightarrow>
      (\<exists>x. RR_Parse E (Record_RR E rec) = Inr (Some (OtherRecord x)))) \<and>
   (convertToLibdnsRecord E raw = Inl errRecordNotSupported \<longleftrightarrow>
      Type raw \<notin> {''A'', ''AAAA'', ''CNAME'', ''TXT''}) \<and>
   (rr_Type (OtherRR E x) \<notin> {''A'', ''AAAA'', ''CNAME'', ''TXT''} \<longrightarrow>
      convertToConohaDNSRecord E (OtherRecord x) =
        (case ParseOther E (OtherRR E x) of
           Inl m \<Rightarrow> Inl (FailedToParseRecord (External m))
         | Inr None \<Rightarrow> Inl RecordNilAfterParsing
         | Inr (Some y) \<Rightarrow> Inl errRecordNotSupported)) \<and>
   convertToConohaDNSRecord E (Address n t ip) \<noteq> Inl errRecordNotSupported \<and>
   convertToConohaDNSRecord E (CNAME n t target) \<noteq> Inl errRecordNotSupported \<and>
   convertToConohaDNSRecord E (TXT n t txt) \<noteq> Inl errRecordNotSupported"
proof (intro conjI impI)
  show "convertToConohaDNSRecord E rec = Inl errRecordNotSupported \<longleftrightarrow>
      (\<exists>x. RR_Parse E (Record_RR E rec) = Inr (Some (OtherRecord x)))"
    by (rule convertToConohaDNSRecord_unsupported_iff)
  show "convertToLibdnsRecord E raw = Inl errRecordNotSupported \<longleftrightarrow>
      Type raw \<notin> {''A'', ''AAAA'', ''CNAME'', ''TXT''}"
    by (rule convertToLibdnsRecord_unsupported_iff)
  show "convertToConohaDNSRecord E (Address n t ip) \<noteq> Inl errRecordNotSupported"
    by (rule convertToConohaDNSRecord_supported_input)
  show "convertToConohaDNSRecord E (CNAME n t target) \<noteq> Inl errRecordNotSupported"
    by (rule convertToConohaDNSRecord_supported_input)
  show "convertToConohaDNSRecord E (TXT n t txt) \<noteq> Inl errRecordNotSupported"
    by (rule convertToConohaDNSRecord_supported_input)
next
  assume "rr_Type (OtherRR E x) \<notin> {''A'', ''AAAA'', ''CNAME'', ''TXT''}"
  then show "convertToConohaDNSRecord E (OtherRecord x) =
        (case ParseOther E (OtherRR E x) of
           Inl m \<Rightarrow> Inl (FailedToParseRecord (External m))
         | Inr None \<Rightarrow> Inl RecordNilAfterParsing
         | Inr (Some y) \<Rightarrow> Inl errRecordNotSupported)"
    by (rule convertToConohaDNSRecord_other)
qed

theorem unsupported_type_both_directions_witness:
  "rr_Type (OtherRR demo demo_mx) \<notin> {''A'', ''AAAA'', ''CNAME'', ''TXT''} \<and>
   ParseOther demo (OtherRR demo demo_mx) = Inr (Some demo_mx) \<and>
   convertToConohaDNSRecord demo (OtherRecord demo_mx) = Inl errRecordNotSupported \<and>
   rr_Type (OtherRR demo demo_mx_empty) \<notin> {''A'', ''AAAA'', ''CNAME'', ''TXT''} \<and>
   ParseOther demo (OtherRR demo demo_mx_empty) = Inl ''malformed MX value'' \<and>
   convertToConohaDNSRecord demo (OtherRecord demo_mx_empty) =
     Inl (FailedToParseRecord (External ''malformed MX value'')) \<and>
   Type demo_r3 \<notin> {''A'', ''AAAA'', ''CNAME'', ''TXT''} \<and>
   convertToLibdnsRecord demo demo_r3 = Inl errRecordNotSupported"
proof -
  have t1: "rr_Type (OtherRR demo demo_mx) \<notin> {''A'', ''AAAA'', ''CNAME'', ''TXT''}"
    and p1: "ParseOther demo (OtherRR demo demo_mx) = Inr (Some demo_mx)"
    by (simp_all add: demo_simps demo_mx_def)
  have t2: "rr_Type (OtherRR demo demo_mx_empty) \<notin> {''A'', ''AAAA'', ''CNAME'', ''TXT''}"
    and p2: "ParseOther demo (OtherRR demo demo_mx_empty) = Inl ''malformed MX value''"
    by (simp_all add: demo_simps demo_mx_empty_def)
  have t3: "Type demo_r3 \<notin> {''A'', ''AAAA'', ''CNAME'', ''TXT''}"
    by (simp add: demo_r3_def)
  from unsupported_type_both_directions [of demo _ _ demo_mx, THEN conjunct2, THEN conjunct2,
      THEN conjunct1, THEN mp, OF t1] p1
  have c1: "convertToConohaDNSRecord demo (OtherRecord demo_mx) = Inl errRecordNotSupported"
    by simp
  from unsupported_type_both_directions [of demo _ _ demo_mx_empty, THEN conjunct2,
      THEN conjunct2, THEN conjunct1, THEN mp, OF t2] p2
  have c2: "convertToConohaDNSRecord demo (OtherRecord demo_mx_empty) =
     Inl (FailedToParseRecord (External ''malformed MX value''))"
    by simp
  from unsupported_type_both_directions [of demo _ demo_r3, THEN conjunct2, THEN conjunct1] t3
  have c3: "convertToLibdnsRecord demo demo_r3 = Inl errRecordNotSupported"
    by simp
  from t1 p1 c1 t2 p2 c2 t3 c3 show ?thesis by simp
qed

theorem unsupported_type_counterexample:
  "rr_Type (Record_RR demo (OtherRecord demo_mx_empty)) = ''MX'' \<and>
   convertToConohaDNSRecord demo (OtherRecord demo_mx_empty) =
     Inl (FailedToParseRecord (External ''malformed MX value'')) \<and>
   convertToConohaDNSRecord demo (OtherRecord demo_mx_empty) \<noteq> Inl errRecordNotSupported"
  by (simp add: convertToConohaDNSRecord_def RR_Parse_def demo_simps demo_mx_empty_def)

section \<open>Requests and the trace\<close>

lemma newJSONRequest_Inr:
  assumes "newJSONRequest E method endpoint payload = Inr req"
  shows "Method req = method \<and> URL req = endpoint \<and> Body req = payload"
  using assms
  by (auto simp add: newJSONRequest_def Let_def split: option.splits if_splits)

lemma newJSONRequest_Inl:
  assumes "newJSONRequest E method endpoint payload = Inl e"
  shows "\<exists>m. e = FailedToCreateJSONBody (External m) \<or> e = UnableToCreateRequest (External m)"
  using assms
  by (auto simp add: newJSONRequest_def Let_def split: option.splits if_splits)

lemma set_auth_token_fields:
  "Method (set_auth_token c req) = Method req"
  "URL (set_auth_token c req) = URL req"
  "Body (set_auth_token c req) = Body req"
  by (simp_all add: set_auth_token_def)

lemma dnsClient_do_trace:
  "snd (snd (dnsClient_do E c req result s)) = snd s @ [set_auth_token c req]"
  by (simp add: dnsClient_do_def HTTPClient_Do_def Let_def
      split: prod.splits sum.splits option.splits)

lemma snd_decoded: "snd (decoded r zero) = snd r"
  by (simp add: decoded_def split: prod.splits sum.splits option.splits)

section \<open>Token issuer: properties\<close>

lemma demo_token_request:
  "newJSONRequest demo ''POST'' (JoinPath (id_baseURL demo_identifier) [''v3'', ''auth'', ''tokens''])
     (Some (json_identityRequest ''tenant'' ''user'' pw)) =
   Inr \<lparr>Method = ''POST'', URL = (''https://identity.c3j1.conoha.io'', [''v3'', ''auth'', ''tokens'']),
        Header = [''Accept'' \<mapsto> ''application/json'', ''Content-Type'' \<mapsto> ''application/json''],
        Body = Some (json_identityRequest ''tenant'' ''user'' pw)\<rparr>"
  by (simp add: demo_newJSONRequest JoinPath_def demo_identifier_def)

text \<open>
  Claim C7. When the token request can be built and the identity service answers it,
  \<open>getToken\<close> returns a token exactly when the status of the answer is 201 and its
  \<open>x-subject-token\<close> header is not empty, and the token is the value of that header.
  Any other status gives the error that carries the status; status 201 with the header
  missing or empty gives the missing-header error.
\<close>

theorem getToken_succeeds_iff:
  assumes "newJSONRequest E ''POST'' (JoinPath (id_baseURL c) [''v3'', ''auth'', ''tokens''])
             (Some (json_identityRequest tenant user pw)) = Inr req"
    and "Do E req (fst s) = (Inr resp, w')"
  shows "(\<forall>tok. fst (getToken E c tenant user pw s) = Inr tok \<longleftrightarrow>
            StatusCode resp = 201 \<and>
            Header_Get (RespHeader resp) CanonicalMIMEHeaderKey_x_subject_token = tok \<and>
            tok \<noteq> []) \<and>
         (StatusCode resp \<noteq> 201 \<longrightarrow>
            fst (getToken E c tenant user pw s) = Inl (InvalidStatus (StatusCode resp))) \<and>
         (StatusCode resp = 201 \<and>
          Header_Get (RespHeader resp) CanonicalMIMEHeaderKey_x_subject_token = [] \<longrightarrow>
            fst (getToken E c tenant user pw s) = Inl MissingToken)"
  using assms
  by (auto simp add: getToken_def identifier_do_def HTTPClient_Do_def Let_def)

theorem getToken_succeeds_iff_witness:
  "(\<exists>req resp w'.
      newJSONRequest demo ''POST'' (JoinPath (id_baseURL demo_identifier) [''v3'', ''auth'', ''tokens''])
        (Some (json_identityRequest ''tenant'' ''user'' ''secret'')) = Inr req \<and>
      Do demo req (fst (False, [])) = (Inr resp, w') \<and> StatusCode resp = 201 \<and>
      Header_Get (RespHeader resp) CanonicalMIMEHeaderKey_x_subject_token = ''tok'' \<and>
      fst (getToken demo demo_identifier ''tenant'' ''user'' ''secret'' (False, [])) = Inr ''tok'') \<and>
   (\<exists>req resp w'.
      newJSONRequest demo ''POST'' (JoinPath (id_baseURL demo_identifier) [''v3'', ''auth'', ''tokens''])
        (Some (json_identityRequest ''tenant'' ''user'' ''wrong'')) = Inr req \<and>
      Do demo req (fst (False, [])) = (Inr resp, w') \<and> StatusCode resp = 401 \<and>
      fst (getToken demo demo_identifier ''tenant'' ''user'' ''wrong'' (False, [])) =
        Inl (InvalidStatus 401)) \<and>
   (\<exists>req resp w'.
      newJSONRequest demo ''POST'' (JoinPath (id_baseURL demo_identifier) [''v3'', ''auth'', ''tokens''])
        (Some (json_identityRequest ''tenant'' ''user'' ''headerless'')) = Inr req \<and>
      Do demo req (fst (False, [])) = (Inr resp, w') \<and> StatusCode resp = 201 \<and>
      Header_Get (RespHeader resp) CanonicalMIMEHeaderKey_x_subject_token = [] \<and>
      fst (getToken demo demo_identifier ''tenant'' ''user'' ''headerless'' (False, [])) =
        Inl MissingToken)"
proof (intro conjI)
  let ?req = "\<lparr>Method = ''POST'',
      URL = (''https://identity.c3j1.conoha.io'', [''v3'', ''auth'', ''tokens'']),
      Header = [''Accept'' \<mapsto> ''application/json'', ''Content-Type'' \<mapsto> ''application/json''],
      Body = Some (json_identityRequest ''tenant'' ''user'' ''secret'')\<rparr>"
  let ?resp = "(demo_response 201 [])\<lparr>RespHeader := [''X-Subject-Token'' \<mapsto> [''tok'']]\<rparr>"
  have d: "Do demo ?req (fst (False, [])) = (Inr ?resp, False)"
    by (simp add: demo_simps demo_Do_def)
  have r: "StatusCode ?resp = 201"
    "Header_Get (RespHeader ?resp) CanonicalMIMEHeaderKey_x_subject_token = ''tok''"
    by (simp_all add: demo_response_def Header_Get_def CanonicalMIMEHeaderKey_x_subject_token_def)
  from getToken_succeeds_iff [OF demo_token_request d, THEN conjunct1, THEN spec, of "''tok''"] r
  have "fst (getToken demo demo_identifier ''tenant'' ''user'' ''secret'' (False, [])) = Inr ''tok''"
    by simp
  with demo_token_request d r show "\<exists>req resp w'.
      newJSONRequest demo ''POST'' (JoinPath (id_baseURL demo_identifier) [''v3'', ''auth'', ''tokens''])
        (Some (json_identityRequest ''tenant'' ''user'' ''secret'')) = Inr req \<and>
      Do demo req (fst (False, [])) = (Inr resp, w') \<and> StatusCode resp = 201 \<and>
      Header_Get (RespHeader resp) CanonicalMIMEHeaderKey_x_subject_token = ''tok'' \<and>
      fst (getToken demo demo_identifier ''tenant'' ''user'' ''secret'' (False, [])) = Inr ''tok''"
    by blast
next
  let ?req = "\<lparr>Method = ''POST'',
      URL = (''https://identity.c3j1.conoha.io'', [''v3'', ''auth'', ''tokens'']),
      Header = [''Accept'' \<mapsto> ''application/json'', ''Content-Type'' \<mapsto> ''application/json''],
      Body = Some (json_identityRequest ''tenant'' ''user'' ''wrong'')\<rparr>"
  let ?resp = "demo_response 401 ''unauthorized''"
  have d: "Do demo ?req (fst (False, [])) = (Inr ?resp, False)"
    by (simp add: demo_simps demo_Do_def json_identityRequest_def)
  have r: "StatusCode ?resp = 401" "StatusCode ?resp \<noteq> 201"
    by (simp_all add: demo_response_def)
  from getToken_succeeds_iff [OF demo_token_request d, THEN conjunct2, THEN conjunct1] r
  have "fst (getToken demo demo_identifier ''tenant'' ''user'' ''wrong'' (False, [])) =
      Inl (InvalidStatus 401)"
    by simp
  with demo_token_request d r show "\<exists>req resp w'.
      newJSONRequest demo ''POST'' (JoinPath (id_baseURL demo_identifier) [''v3'', ''auth'', ''tokens''])
        (Some (json_identityRequest ''tenant'' ''user'' ''wrong'')) = Inr req \<and>
      Do demo req (fst (False, [])) = (Inr resp, w') \<and> StatusCode resp = 401 \<and>
      fst (getToken demo demo_identifier ''tenant'' ''user'' ''wrong'' (False, [])) =
        Inl (InvalidStatus 401)"
    by blast
next
  let ?req = "\<lparr>Method = ''POST'',
      URL = (''https://identity.c3j1.conoha.io'', [''v3'', ''auth'', ''tokens'']),
      Header = [''Accept'' \<mapsto> ''application/json'', ''Content-Type'' \<mapsto> ''application/json''],
      Body = Some (json_identityRequest ''tenant'' ''user'' ''headerless'')\<rparr>"
  let ?resp = "demo_response 201 []"
  have d: "Do demo ?req (fst (False, [])) = (Inr ?resp, False)"
    by (simp add: demo_simps demo_Do_def json_identityRequest_def)
  have r: "StatusCode ?resp = 201"
    "Header_Get (RespHeader ?resp) CanonicalMIMEHeaderKey_x_subject_token = []"
    by (simp_all add: demo_response_def Header_Get_def)
  from getToken_succeeds_iff [OF demo_token_request d, THEN conjunct2, THEN conjunct2] r
  have "fst (getToken demo demo_identifier ''tenant'' ''user'' ''headerless'' (False, [])) =
      Inl MissingToken"
    by simp
  with demo_token_request d r show "\<exists>req resp w'.
      newJSONRequest demo ''POST'' (JoinPath (id_baseURL demo_identifier) [''v3'', ''auth'', ''tokens''])
        (Some (json_identityRequest ''tenant'' ''user'' ''headerless'')) = Inr req \<and>
      Do demo req (fst (False, [])) = (Inr resp, w') \<and> StatusCode resp = 201 \<and>
      Header_Get (RespHeader resp) CanonicalMIMEHeaderKey_x_subject_token = [] \<and>
      fst (getToken demo demo_identifier ''tenant'' ''user'' ''headerless'' (False, [])) =
        Inl MissingToken"
    by blast
qed

section \<open>Record-service client: properties\<close>

text \<open>
  Claim C8. Every operation of the record service sends its request through
  \<open>dnsClient.do\<close>. When the service answers, a status other than 200 and 204 (201
  included) makes \<open>do\<close> return the error that carries the status and the text of the
  body; so \<open>do\<close> returns without error only on 200 or 204, and with no result to decode
  (the delete operation) it returns without error exactly on 200 or 204.
\<close>

theorem dnsClient_do_accepts_only_200_204:
  assumes "Do E (set_auth_token c req) (fst s) = (Inr resp, w')"
  shows "(StatusCode resp \<noteq> 200 \<and> StatusCode resp \<noteq> 204 \<longrightarrow>
            dnsClient_do E c req result s =
              (Inl (ErrorStatus (StatusCode resp) (RespBody resp)),
               (w', snd s @ [set_auth_token c req]))) \<and>
         (\<forall>v. fst (dnsClient_do E c req result s) = Inr v \<longrightarrow>
            StatusCode resp = 200 \<or> StatusCode resp = 204) \<and>
         (result = None \<longrightarrow>
            (fst (dnsClient_do E c req result s) = Inr None \<longleftrightarrow>
               StatusCode resp = 200 \<or> StatusCode resp = 204))"
  using assms
  by (auto simp add: dnsClient_do_def HTTPClient_Do_def Let_def split: option.splits sum.splits)

theorem dnsClient_do_accepts_only_200_204_witness:
  "(\<exists>resp w'.
      Do demo (set_auth_token demo_client (demo_request ''POST'' [''v1'', ''domains'', ''d2'', ''records'']))
        (fst (False, [])) = (Inr resp, w') \<and> StatusCode resp = 201 \<and>
      fst (dnsClient_do demo demo_client
             (demo_request ''POST'' [''v1'', ''domains'', ''d2'', ''records''])
             (Some (Unmarshal_record demo)) (False, [])) = Inl (ErrorStatus 201 ''created'')) \<and>
   (\<exists>resp w' v.
      Do demo (set_auth_token demo_client (demo_request ''GET'' [''v1'', ''domains'']))
        (fst (False, [])) = (Inr resp, w') \<and>
      fst (dnsClient_do demo demo_client (demo_request ''GET'' [''v1'', ''domains''])
             (Some (Unmarshal_domainList demo)) (False, [])) = Inr v \<and> StatusCode resp = 200) \<and>
   (\<exists>resp w'.
      Do demo (set_auth_token demo_client
                 (demo_request ''DELETE'' [''v1'', ''domains'', ''d1'', ''records'', ''r1'']))
        (fst (False, [])) = (Inr resp, w') \<and> StatusCode resp = 204 \<and>
      fst (dnsClient_do demo demo_client
             (demo_request ''DELETE'' [''v1'', ''domains'', ''d1'', ''records'', ''r1''])
             (None :: (string \<Rightarrow> string + unit) option) (False, [])) = Inr None)"
proof (intro conjI)
  let ?req = "demo_request ''POST'' [''v1'', ''domains'', ''d2'', ''records'']"
  let ?resp = "demo_response 201 ''created''"
  have d: "Do demo (set_auth_token demo_client ?req) (fst (False, [])) = (Inr ?resp, False)"
    by (simp add: demo_simps demo_Do_def set_auth_token_def demo_client_def demo_request_def)
  have r: "StatusCode ?resp = 201" "StatusCode ?resp \<noteq> 200 \<and> StatusCode ?resp \<noteq> 204"
    "RespBody ?resp = ''created''"
    by (simp_all add: demo_response_def)
  from dnsClient_do_accepts_only_200_204 [OF d, of "Some (Unmarshal_record demo)",
      THEN conjunct1, THEN mp, OF r(2)] r
  have "fst (dnsClient_do demo demo_client ?req (Some (Unmarshal_record demo)) (False, [])) =
      Inl (ErrorStatus 201 ''created'')"
    by simp
  with d r show "\<exists>resp w'.
      Do demo (set_auth_token demo_client ?req) (fst (False, [])) = (Inr resp, w') \<and>
      StatusCode resp = 201 \<and>
      fst (dnsClient_do demo demo_client ?req (Some (Unmarshal_record demo)) (False, [])) =
        Inl (ErrorStatus 201 ''created'')"
    by blast
next
  let ?req = "demo_request ''GET'' [''v1'', ''domains'']"
  let ?resp = "demo_response 200 ''domains''"
  have d: "Do demo (set_auth_token demo_client ?req) (fst (False, [])) = (Inr ?resp, False)"
    by (simp add: demo_simps demo_Do_def set_auth_token_def demo_client_def demo_request_def)
  have d': "Do demo (set_auth_token demo_client ?req) False = (Inr ?resp, False)"
    using d by simp
  have v: "fst (dnsClient_do demo demo_client ?req (Some (Unmarshal_domainList demo))
      (False, [])) =
      Inr (Some [\<lparr>domain_UUID = ''d1'', domain_Name = ''example.localhost''\<rparr>,
                 \<lparr>domain_UUID = ''d2'', domain_Name = ''broken.localhost''\<rparr>])"
    by (simp add: dnsClient_do_def HTTPClient_Do_def d' demo_response_def demo_Unmarshal_simps)
  from dnsClient_do_accepts_only_200_204 [OF d, of "Some (Unmarshal_domainList demo)",
      THEN conjunct2, THEN conjunct1, THEN spec, THEN mp, OF v]
  have "StatusCode ?resp = 200"
    by (simp add: demo_response_def)
  with d v show "\<exists>resp w' v.
      Do demo (set_auth_token demo_client ?req) (fst (False, [])) = (Inr resp, w') \<and>
      fst (dnsClient_do demo demo_client ?req (Some (Unmarshal_domainList demo)) (False, [])) =
        Inr v \<and> StatusCode resp = 200"
    by blast
next
  let ?req = "demo_request ''DELETE'' [''v1'', ''domains'', ''d1'', ''records'', ''r1'']"
  let ?resp = "demo_response 204 []"
  have d: "Do demo (set_auth_token demo_client ?req) (fst (False, [])) = (Inr ?resp, True)"
    by (simp add: demo_simps demo_Do_def set_auth_token_def demo_client_def demo_request_def)
  have r: "StatusCode ?resp = 204"
    by (simp add: demo_response_def)
  from dnsClient_do_accepts_only_200_204 [OF d, of "None :: (string \<Rightarrow> string + unit) option",
      THEN conjunct2, THEN conjunct2] r
  have "fst (dnsClient_do demo demo_client ?req (None :: (string \<Rightarrow> string + unit) option)
      (False, [])) = Inr None"
    by simp
  with d r show "\<exists>resp w'.
      Do demo (set_auth_token demo_client ?req) (fst (False, [])) = (Inr resp, w') \<and>
      StatusCode resp = 204 \<and>
      fst (dnsClient_do demo demo_client ?req (None :: (string \<Rightarrow> string + unit) option)
             (False, [])) = Inr None"
    by blast
qed

lemma getRecordID_loop_find:
  "getRecordID_loop rs n t =
     (case find (\<lambda>r. Name r = n \<and> Type r = t) rs of
        None \<Rightarrow> Inl errRecordNotFound
      | Some r \<Rightarrow> Inr (UUID r))"
  by (induction rs) simp_all

lemma getRecordID_unfold:
  assumes "getRecords E c domainID s = (Inr recordList, s')"
  shows "getRecordID E c domainID n t s = (getRecordID_loop recordList n t, s')"
  using assms by (simp add: getRecordID_def)

text \<open>
  Claim C6. When the listing of the domain succeeds, \<open>getRecordID\<close> returns the UUID of
  the first record of the list, in list order, whose name and type both equal the ones
  asked for (whatever comes after it, a second record of the same name and type included),
  and the error \<open>errRecordNotFound\<close> when no record of the list has that name and type.
\<close>

theorem getRecordID_first_match:
  assumes "getRecords E c domainID s = (Inr recordList, s')"
  shows "(\<forall>i. i < length recordList \<and>
              Name (recordList ! i) = n \<and> Type (recordList ! i) = t \<and>
              (\<forall>j<i. \<not> (Name (recordList ! j) = n \<and> Type (recordList ! j) = t)) \<longrightarrow>
              getRecordID E c domainID n t s = (Inr (UUID (recordList ! i)), s')) \<and>
         ((\<forall>r\<in>set recordList. \<not> (Name r = n \<and> Type r = t)) \<longrightarrow>
              getRecordID E c domainID n t s = (Inl errRecordNotFound, s'))"
proof (intro conjI allI impI)
  fix i
  assume a: "i < length recordList \<and>
              Name (recordList ! i) = n \<and> Type (recordList ! i) = t \<and>
              (\<forall>j<i. \<not> (Name (recordList ! j) = n \<and> Type (recordList ! j) = t))"
  then have "find (\<lambda>r. Name r = n \<and> Type r = t) recordList = Some (recordList ! i)"
    unfolding find_Some_iff by blast
  then show "getRecordID E c domainID n t s = (Inr (UUID (recordList ! i)), s')"
    by (simp add: getRecordID_unfold [OF assms] getRecordID_loop_find)
next
  assume "\<forall>r\<in>set recordList. \<not> (Name r = n \<and> Type r = t)"
  then have "find (\<lambda>r. Name r = n \<and> Type r = t) recordList = None"
    unfolding find_None_iff by blast
  then show "getRecordID E c domainID n t s = (Inl errRecordNotFound, s')"
    by (simp add: getRecordID_unfold [OF assms] getRecordID_loop_find)
qed

theorem getRecordID_first_match_witness:
  "\<exists>s'. getRecords demo demo_client ''d1'' (False, []) =
           (Inr [demo_r3, demo_r1, demo_r2, demo_r4], s') \<and>
     Name demo_r2 = ''www'' \<and> Type demo_r2 = ''A'' \<and>
     Name demo_r4 = ''www'' \<and> Type demo_r4 = ''A'' \<and>
     getRecordID demo demo_client ''d1'' ''www'' ''A'' (False, []) = (Inr ''r2'', s') \<and>
     getRecordID demo demo_client ''d1'' ''new'' ''TXT'' (False, []) = (Inl errRecordNotFound, s')"
proof -
  let ?rs = "[demo_r3, demo_r1, demo_r2, demo_r4]"
  obtain s' where h: "getRecords demo demo_client ''d1'' (False, []) = (Inr ?rs, s')"
    using demo_getRecords(1) [of "(False, [])"] by auto
  have first: "(2::nat) < length ?rs \<and> Name (?rs ! 2) = ''www'' \<and> Type (?rs ! 2) = ''A'' \<and>
      (\<forall>j<2. \<not> (Name (?rs ! j) = ''www'' \<and> Type (?rs ! j) = ''A''))"
    by (simp add: demo_r1_def demo_r2_def demo_r3_def less_Suc_eq numeral_2_eq_2)
  have none: "\<forall>r\<in>set ?rs. \<not> (Name r = ''new'' \<and> Type r = ''TXT'')"
    by (simp add: demo_r1_def demo_r2_def demo_r3_def demo_r4_def)
  from getRecordID_first_match [OF h, of "''www''" "''A''", THEN conjunct1, rule_format, OF first]
  have a: "getRecordID demo demo_client ''d1'' ''www'' ''A'' (False, []) = (Inr ''r2'', s')"
    by (simp add: demo_r2_def)
  from getRecordID_first_match [OF h, of "''new''" "''TXT''", THEN conjunct2, THEN mp, OF none]
  have b: "getRecordID demo demo_client ''d1'' ''new'' ''TXT'' (False, []) =
      (Inl errRecordNotFound, s')" .
  from h a b show ?thesis
    by (auto simp add: demo_r2_def demo_r4_def)
qed

lemma json_conohaDNSRecord_TTL_zero:
  "\<exists>fields. json_conohaDNSRecord (record\<lparr>TTL := 0\<rparr>) = JObject fields \<and>
     map_of fields ''ttl'' = None \<and>
     map_of fields ''name'' = Some (JString (Name record)) \<and>
     map_of fields ''type'' = Some (JString (Type record)) \<and>
     map_of fields ''data'' = Some (JString (Data record))"
  by (simp add: json_conohaDNSRecord_def)

text \<open>
  Claim C1. \<open>updateRecord\<close> sends at most one request. If the request cannot be built it
  sends nothing and returns that error. Otherwise it sends one \<open>PUT\<close> whose payload is the
  input record with its TTL set to zero: the JSON document has no \<open>ttl\<close> field, whatever the
  TTL of the input, and its \<open>name\<close>, \<open>type\<close> and \<open>data\<close> fields are those of the input.
\<close>

theorem updateRecord_sends_TTL_zero:
  "\<exists>sent. snd (snd (updateRecord E c domainID recordID record s)) = snd s @ sent \<and>
     ((sent = [] \<and>
       (\<exists>m. updateRecord E c domainID recordID record s =
               (Inl (FailedToCreateJSONBody (External m)), s) \<or>
             updateRecord E c domainID recordID record s =
               (Inl (UnableToCreateRequest (External m)), s))) \<or>
      (\<exists>req fields. sent = [req] \<and> Method req = ''PUT'' \<and>
         Body req = Some (json_conohaDNSRecord (record\<lparr>TTL := 0\<rparr>)) \<and>
         Body req = Some (JObject fields) \<and>
         map_of fields ''ttl'' = None \<and>
         map_of fields ''name'' = Some (JString (Name record)) \<and>
         map_of fields ''type'' = Some (JString (Type record)) \<and>
         map_of fields ''data'' = Some (JString (Data record))))"
proof (cases "newJSONRequest E ''PUT''
                (JoinPath (baseURL c) [''v1'', ''domains'', domainID, ''records'', recordID])
                (Some (json_conohaDNSRecord (record\<lparr>TTL := 0\<rparr>)))")
  case (Inl e)
  from newJSONRequest_Inl [OF Inl] obtain m where
    "e = FailedToCreateJSONBody (External m) \<or> e = UnableToCreateRequest (External m)"
    by blast
  with Inl have "snd (snd (updateRecord E c domainID recordID record s)) = snd s @ [] \<and>
       (\<exists>m. updateRecord E c domainID recordID record s =
               (Inl (FailedToCreateJSONBody (External m)), s) \<or>
             updateRecord E c domainID recordID record s =
               (Inl (UnableToCreateRequest (External m)), s))"
    by (auto simp add: updateRecord_def)
  then show ?thesis by blast
next
  case (Inr req)
  from newJSONRequest_Inr [OF Inr] have
    f: "Method req = ''PUT''" "Body req = Some (json_conohaDNSRecord (record\<lparr>TTL := 0\<rparr>))"
    by simp_all
  from Inr have "snd (snd (updateRecord E c domainID recordID record s)) =
      snd s @ [set_auth_token c req]"
    by (simp add: updateRecord_def snd_decoded dnsClient_do_trace)
  moreover obtain fields where "json_conohaDNSRecord (record\<lparr>TTL := 0\<rparr>) = JObject fields"
     "map_of fields ''ttl'' = None"
     "map_of fields ''name'' = Some (JString (Name record))"
     "map_of fields ''type'' = Some (JString (Type record))"
     "map_of fields ''data'' = Some (JString (Data record))"
    using json_conohaDNSRecord_TTL_zero [of "record"] by blast
  ultimately show ?thesis
    using f by (auto simp add: set_auth_token_fields)
qed

theorem updateRecord_sends_TTL_zero_witness:
  "TTL demo_put_r1 = 1200 \<and>
   (\<exists>req. snd (snd (updateRecord demo demo_client ''d1'' ''r1'' demo_put_r1 (False, []))) = [req] \<and>
      Method req = ''PUT'' \<and>
      Body req = Some (JObject [(''name'', JString ''test''), (''type'', JString ''TXT''),
                                (''data'', JString ''updated'')]))"
proof -
  from updateRecord_sends_TTL_zero [of demo demo_client "''d1''" "''r1''" demo_put_r1 "(False, [])"]
  obtain sent where s: "snd (snd (updateRecord demo demo_client ''d1'' ''r1'' demo_put_r1 (False, []))) = sent"
    and d: "(sent = [] \<and>
       (\<exists>m. updateRecord demo demo_client ''d1'' ''r1'' demo_put_r1 (False, []) =
               (Inl (FailedToCreateJSONBody (External m)), (False, [])) \<or>
             updateRecord demo demo_client ''d1'' ''r1'' demo_put_r1 (False, []) =
               (Inl (UnableToCreateRequest (External m)), (False, [])))) \<or>
      (\<exists>req fields. sent = [req] \<and> Method req = ''PUT'' \<and>
         Body req = Some (json_conohaDNSRecord (demo_put_r1\<lparr>TTL := 0\<rparr>)) \<and>
         Body req = Some (JObject fields) \<and>
         map_of fields ''ttl'' = None \<and>
         map_of fields ''name'' = Some (JString (Name demo_put_r1)) \<and>
         map_of fields ''type'' = Some (JString (Type demo_put_r1)) \<and>
         map_of fields ''data'' = Some (JString (Data demo_put_r1)))"
    by auto
  have ok: "fst (updateRecord demo demo_client ''d1'' ''r1'' demo_put_r1 (False, [])) =
      Inr (demo_r1\<lparr>Data := ''updated'', TTL := 0\<rparr>)"
    by (simp add: updateRecord_def demo_newJSONRequest dnsClient_do_def set_auth_token_def
        HTTPClient_Do_def demo_simps demo_Do_def JoinPath_def demo_client_def demo_response_def
        decoded_def demo_Unmarshal_simps)
  from d ok obtain req where "sent = [req]" "Method req = ''PUT''"
     "Body req = Some (json_conohaDNSRecord (demo_put_r1\<lparr>TTL := 0\<rparr>))"
    by auto
  with s show ?thesis
    by (simp add: json_conohaDNSRecord_def demo_put_r1_def)
qed

section \<open>Provider: reading\<close>

lemma GetRecords_loop_all_ok:
  assumes "\<forall>r\<in>set raw. \<forall>e. convertToLibdnsRecord E r = Inl e \<longrightarrow> e = errRecordNotSupported"
  shows "GetRecords_loop E raw acc =
           Inr (acc @ List.map_filter
                  (\<lambda>r. case convertToLibdnsRecord E r of Inl e \<Rightarrow> None | Inr x \<Rightarrow> Some x) raw)"
  using assms
proof (induction raw arbitrary: acc)
  case Nil
  then show ?case by simp
next
  case (Cons r raw)
  then show ?case
    by (cases "convertToLibdnsRecord E r") (simp_all)
qed

lemma GetRecords_loop_first_failure:
  assumes "\<forall>x\<in>set pre. \<forall>e'. convertToLibdnsRecord E x = Inl e' \<longrightarrow> e' = errRecordNotSupported"
    and "convertToLibdnsRecord E r = Inl e" and "e \<noteq> errRecordNotSupported"
  shows "GetRecords_loop E (pre @ r # post) acc = Inl e"
  using assms
proof (induction pre arbitrary: acc)
  case Nil
  then show ?case by simp
next
  case (Cons x pre)
  then show ?case
    by (cases "convertToLibdnsRecord E x") simp_all
qed

lemma GetRecords_unfold:
  assumes "initClient E p s = (Inr c, s1)" and "getDomainID E c zone s1 = (Inr d, s2)"
    and "getRecords E c d s2 = (Inr raw, s3)"
  shows "GetRecords E p zone s = (GetRecords_loop E raw [], s3)"
  using assms by (simp add: GetRecords_def)

text \<open>
  Claim C4. Let the client, the domain and the listing be obtained without error. If no
  record of the listing fails to translate with an error other than
  \<open>errRecordNotSupported\<close>, \<open>GetRecords\<close> returns the translations of the records that
  translate, in list order, and leaves out the records whose translation is that error,
  and only those. Otherwise it returns the error of the first record that fails with
  another error, and no list.
\<close>

theorem GetRecords_skips_only_unsupported:
  assumes "initClient E p s = (Inr c, s1)" and "getDomainID E c zone s1 = (Inr d, s2)"
    and "getRecords E c d s2 = (Inr raw, s3)"
  shows "((\<forall>r\<in>set raw. \<forall>e. convertToLibdnsRecord E r = Inl e \<longrightarrow> e = errRecordNotSupported) \<longrightarrow>
            GetRecords E p zone s =
              (Inr (List.map_filter
                      (\<lambda>r. case convertToLibdnsRecord E r of Inl e \<Rightarrow> None | Inr x \<Rightarrow> Some x) raw),
               s3)) \<and>
         (\<forall>pre r post e.
            raw = pre @ r # post \<and>
            (\<forall>x\<in>set pre. \<forall>e'. convertToLibdnsRecord E x = Inl e' \<longrightarrow> e' = errRecordNotSupported) \<and>
            convertToLibdnsRecord E r = Inl e \<and> e \<noteq> errRecordNotSupported \<longrightarrow>
            GetRecords E p zone s = (Inl e, s3))"
proof (intro conjI impI allI)
  assume "\<forall>r\<in>set raw. \<forall>e. convertToLibdnsRecord E r = Inl e \<longrightarrow> e = errRecordNotSupported"
  then show "GetRecords E p zone s =
      (Inr (List.map_filter
              (\<lambda>r. case convertToLibdnsRecord E r of Inl e \<Rightarrow> None | Inr x \<Rightarrow> Some x) raw), s3)"
    by (simp add: GetRecords_unfold [OF assms] GetRecords_loop_all_ok)
next
  fix pre r post e
  assume "raw = pre @ r # post \<and>
            (\<forall>x\<in>set pre. \<forall>e'. convertToLibdnsRecord E x = Inl e' \<longrightarrow> e' = errRecordNotSupported) \<and>
            convertToLibdnsRecord E r = Inl e \<and> e \<noteq> errRecordNotSupported"
  then show "GetRecords E p zone s = (Inl e, s3)"
    by (simp add: GetRecords_unfold [OF assms] GetRecords_loop_first_failure)
qed

theorem GetRecords_skips_only_unsupported_witness:
  "(\<exists>s1 s2 s3.
      initClient demo (demo_provider ''secret'') (False, []) = (Inr demo_client, s1) \<and>
      getDomainID demo demo_client ''example.localhost'' s1 = (Inr ''d1'', s2) \<and>
      getRecords demo demo_client ''d1'' s2 = (Inr [demo_r3, demo_r1, demo_r2, demo_r4], s3) \<and>
      convertToLibdnsRecord demo demo_r3 = Inl errRecordNotSupported \<and>
      GetRecords demo (demo_provider ''secret'') ''example.localhost'' (False, []) =
        (Inr [TXT ''test'' (1200 * Second) ''testval1'',
              Address ''www'' (300 * Second) Addr4,
              Address ''www'' (60 * Second) Addr4], s3)) \<and>
   (\<exists>s1 s2 s3.
      initClient demo (demo_provider ''secret'') (False, []) = (Inr demo_client, s1) \<and>
      getDomainID demo demo_client ''broken.localhost'' s1 = (Inr ''d2'', s2) \<and>
      getRecords demo demo_client ''d2'' s2 = (Inr ([demo_r3] @ demo_bad # [demo_r1]), s3) \<and>
      convertToLibdnsRecord demo demo_bad = Inl (External ''unable to parse IP'') \<and>
      GetRecords demo (demo_provider ''secret'') ''broken.localhost'' (False, []) =
        (Inl (External ''unable to parse IP''), s3))"
proof (intro conjI)
  obtain s1 where h1: "initClient demo (demo_provider ''secret'') (False, []) = (Inr demo_client, s1)"
    and w1: "fst s1 = False"
    using demo_initClient [of "(False, [])"] by auto
  obtain s2 where h2: "getDomainID demo demo_client ''example.localhost'' s1 = (Inr ''d1'', s2)"
    and w2: "fst s2 = False"
    using demo_getDomainID(1) [of s1] w1 by auto
  obtain s3 where h3: "getRecords demo demo_client ''d1'' s2 =
      (Inr [demo_r3, demo_r1, demo_r2, demo_r4], s3)"
    using demo_getRecords(1) [of s2] w2 by auto
  have ok: "\<forall>r\<in>set [demo_r3, demo_r1, demo_r2, demo_r4].
      \<forall>e. convertToLibdnsRecord demo r = Inl e \<longrightarrow> e = errRecordNotSupported"
    by (simp add: demo_convertToLibdnsRecord)
  from GetRecords_skips_only_unsupported [OF h1 h2 h3] ok
  have "GetRecords demo (demo_provider ''secret'') ''example.localhost'' (False, []) =
        (Inr [TXT ''test'' (1200 * Second) ''testval1'',
              Address ''www'' (300 * Second) Addr4,
              Address ''www'' (60 * Second) Addr4], s3)"
    by (simp add: demo_convertToLibdnsRecord)
  with h1 h2 h3 show "\<exists>s1 s2 s3.
      initClient demo (demo_provider ''secret'') (False, []) = (Inr demo_client, s1) \<and>
      getDomainID demo demo_client ''example.localhost'' s1 = (Inr ''d1'', s2) \<and>
      getRecords demo demo_client ''d1'' s2 = (Inr [demo_r3, demo_r1, demo_r2, demo_r4], s3) \<and>
      convertToLibdnsRecord demo demo_r3 = Inl errRecordNotSupported \<and>
      GetRecords demo (demo_provider ''secret'') ''example.localhost'' (False, []) =
        (Inr [TXT ''test'' (1200 * Second) ''testval1'',
              Address ''www'' (300 * Second) Addr4,
              Address ''www'' (60 * Second) Addr4], s3)"
    using demo_convertToLibdnsRecord(3) by blast
next
  obtain s1 where h1: "initClient demo (demo_provider ''secret'') (False, []) = (Inr demo_client, s1)"
    using demo_initClient [of "(False, [])"] by auto
  obtain s2 where h2: "getDomainID demo demo_client ''broken.localhost'' s1 = (Inr ''d2'', s2)"
    using demo_getDomainID(2) [of s1] by auto
  obtain s3 where h3: "getRecords demo demo_client ''d2'' s2 =
      (Inr ([demo_r3] @ demo_bad # [demo_r1]), s3)"
    using demo_getRecords(2) [of s2] by auto
  have "[demo_r3] @ demo_bad # [demo_r1] = [demo_r3] @ demo_bad # [demo_r1] \<and>
      (\<forall>x\<in>set [demo_r3].
         \<forall>e'. convertToLibdnsRecord demo x = Inl e' \<longrightarrow> e' = errRecordNotSupported) \<and>
      convertToLibdnsRecord demo demo_bad = Inl (External ''unable to parse IP'') \<and>
      External ''unable to parse IP'' \<noteq> errRecordNotSupported"
    by (simp add: demo_convertToLibdnsRecord)
  from GetRecords_skips_only_unsupported [OF h1 h2 h3, THEN conjunct2, rule_format, OF this]
  have "GetRecords demo (demo_provider ''secret'') ''broken.localhost'' (False, []) =
        (Inl (External ''unable to parse IP''), s3)" .
  with h1 h2 h3 show "\<exists>s1 s2 s3.
      initClient demo (demo_provider ''secret'') (False, []) = (Inr demo_client, s1) \<and>
      getDomainID demo demo_client ''broken.localhost'' s1 = (Inr ''d2'', s2) \<and>
      getRecords demo demo_client ''d2'' s2 = (Inr ([demo_r3] @ demo_bad # [demo_r1]), s3) \<and>
      convertToLibdnsRecord demo demo_bad = Inl (External ''unable to parse IP'') \<and>
      GetRecords demo (demo_provider ''secret'') ''broken.localhost'' (False, []) =
        (Inl (External ''unable to parse IP''), s3)"
    using demo_convertToLibdnsRecord(5) by blast
qed

lemma convertToLibdnsRecord_error:
  assumes "convertToLibdnsRecord E r = Inl e"
  shows "e = errRecordNotSupported \<or> (\<exists>m. e = External m)"
  using assms
  by (auto simp add: convertToLibdnsRecord_def Let_def split: if_splits sum.splits)

lemma GetRecords_loop_some_failure:
  assumes "r \<in> set raw" and "convertToLibdnsRecord E r = Inl e" and "e \<noteq> errRecordNotSupported"
  shows "\<exists>m. GetRecords_loop E raw acc = Inl (External m)"
  using assms
proof (induction raw arbitrary: acc)
  case Nil
  then show ?case by simp
next
  case (Cons x raw)
  show ?case
  proof (cases "convertToLibdnsRecord E x")
    case (Inl e0)
    show ?thesis
    proof (cases "e0 = errRecordNotSupported")
      case True
      with Inl Cons.prems have "r \<in> set raw" by auto
      with Cons.IH Cons.prems Inl True show ?thesis by simp
    next
      case False
      with convertToLibdnsRecord_error [OF Inl] Inl show ?thesis by auto
    qed
  next
    case (Inr y)
    with Cons.prems have "r \<in> set raw" by auto
    with Cons.IH Cons.prems Inr show ?thesis by simp
  qed
qed

text \<open>
  Claim C10. A raw record of type \<open>A\<close> or \<open>AAAA\<close> whose data \<open>netip.ParseAddr\<close> rejects
  makes \<open>convertToLibdnsRecord\<close> return the error of \<open>ParseAddr\<close>, which is not
  \<open>errRecordNotSupported\<close>. So \<open>GetRecords\<close>, on a listing in which such a record is the
  first that fails with an error other than \<open>errRecordNotSupported\<close>, returns that error
  for the whole call instead of skipping the record; and wherever such a record stands in
  the listing, the call returns an error of \<open>ParseAddr\<close> and no list.
\<close>

theorem malformed_address_fails_GetRecords:
  assumes "Type rec = ''A'' \<or> Type rec = ''AAAA''" and "ParseAddr E (Data rec) = Inl m"
  shows "convertToLibdnsRecord E rec = Inl (External m) \<and>
         External m \<noteq> errRecordNotSupported \<and>
         (\<forall>p zone s c s1 d s2 pre post s3.
            initClient E p s = (Inr c, s1) \<and> getDomainID E c zone s1 = (Inr d, s2) \<and>
            getRecords E c d s2 = (Inr (pre @ rec # post), s3) \<and>
            (\<forall>x\<in>set pre. \<forall>e. convertToLibdnsRecord E x = Inl e \<longrightarrow> e = errRecordNotSupported) \<longrightarrow>
            GetRecords E p zone s = (Inl (External m), s3)) \<and>
         (\<forall>p zone s c s1 d s2 raw s3.
            initClient E p s = (Inr c, s1) \<and> getDomainID E c zone s1 = (Inr d, s2) \<and>
            getRecords E c d s2 = (Inr raw, s3) \<and> rec \<in> set raw \<longrightarrow>
            (\<exists>m'. GetRecords E p zone s = (Inl (External m'), s3)))"
proof -
  have conv: "convertToLibdnsRecord E rec = Inl (External m)"
    using assms by (auto simp add: convertToLibdnsRecord_def)
  show ?thesis
  proof (intro conjI allI impI)
    show "convertToLibdnsRecord E rec = Inl (External m)" by (rule conv)
    show "External m \<noteq> errRecordNotSupported" by simp
  next
    fix p zone s c s1 d s2 pre post s3
    assume a: "initClient E p s = (Inr c, s1) \<and> getDomainID E c zone s1 = (Inr d, s2) \<and>
            getRecords E c d s2 = (Inr (pre @ rec # post), s3) \<and>
            (\<forall>x\<in>set pre. \<forall>e. convertToLibdnsRecord E x = Inl e \<longrightarrow> e = errRecordNotSupported)"
    then have "GetRecords E p zone s = (GetRecords_loop E (pre @ rec # post) [], s3)"
      by (simp add: GetRecords_def)
    with a conv show "GetRecords E p zone s = (Inl (External m), s3)"
      by (simp add: GetRecords_loop_first_failure)
  next
    fix p zone s c s1 d s2 raw s3
    assume a: "initClient E p s = (Inr c, s1) \<and> getDomainID E c zone s1 = (Inr d, s2) \<and>
            getRecords E c d s2 = (Inr raw, s3) \<and> rec \<in> set raw"
    then have "GetRecords E p zone s = (GetRecords_loop E raw [], s3)"
      by (simp add: GetRecords_def)
    moreover from a conv have "\<exists>m'. GetRecords_loop E raw [] = Inl (External m')"
      by (intro GetRecords_loop_some_failure [of rec raw E "External m"]) simp_all
    ultimately show "\<exists>m'. GetRecords E p zone s = (Inl (External m'), s3)"
      by auto
  qed
qed

theorem malformed_address_fails_GetRecords_witness:
  "(Type demo_bad = ''A'' \<or> Type demo_bad = ''AAAA'') \<and>
   ParseAddr demo (Data demo_bad) = Inl ''unable to parse IP'' \<and>
   convertToLibdnsRecord demo demo_bad = Inl (External ''unable to parse IP'') \<and>
   (\<exists>s1 s2 s3.
      initClient demo (demo_provider ''secret'') (False, []) = (Inr demo_client, s1) \<and>
      getDomainID demo demo_client ''broken.localhost'' s1 = (Inr ''d2'', s2) \<and>
      getRecords demo demo_client ''d2'' s2 = (Inr ([demo_r3] @ demo_bad # [demo_r1]), s3) \<and>
      convertToLibdnsRecord demo demo_r3 = Inl errRecordNotSupported \<and>
      GetRecords demo (demo_provider ''secret'') ''broken.localhost'' (False, []) =
        (Inl (External ''unable to parse IP''), s3))"
proof -
  have t: "Type demo_bad = ''A'' \<or> Type demo_bad = ''AAAA''"
    by (simp add: demo_bad_def)
  have pa: "ParseAddr demo (Data demo_bad) = Inl ''unable to parse IP''"
    by (simp add: demo_bad_def demo_simps demo_ParseAddr_def)
  obtain s1 where h1: "initClient demo (demo_provider ''secret'') (False, []) = (Inr demo_client, s1)"
    using demo_initClient [of "(False, [])"] by auto
  obtain s2 where h2: "getDomainID demo demo_client ''broken.localhost'' s1 = (Inr ''d2'', s2)"
    using demo_getDomainID(2) [of s1] by auto
  obtain s3 where h3: "getRecords demo demo_client ''d2'' s2 =
      (Inr ([demo_r3] @ demo_bad # [demo_r1]), s3)"
    using demo_getRecords(2) [of s2] by auto
  have pre: "\<forall>x\<in>set [demo_r3]. \<forall>e. convertToLibdnsRecord demo x = Inl e \<longrightarrow> e = errRecordNotSupported"
    by (simp add: demo_convertToLibdnsRecord)
  note th = malformed_address_fails_GetRecords [OF t pa]
  from th have c: "convertToLibdnsRecord demo demo_bad = Inl (External ''unable to parse IP'')"
    by blast
  from th h1 h2 h3 pre
  have g: "GetRecords demo (demo_provider ''secret'') ''broken.localhost'' (False, []) =
        (Inl (External ''unable to parse IP''), s3)"
    by blast
  from t pa c h1 h2 h3 g demo_convertToLibdnsRecord(3) show ?thesis
    by blast
qed

section \<open>Provider: writing\<close>

lemma dnsClient_do_error:
  assumes "dnsClient_do E c req result s = (Inl e, s')"
  shows "(\<exists>m. e = External m) \<or> (\<exists>code body. e = ErrorStatus code body)"
  using assms
  by (auto simp add: dnsClient_do_def HTTPClient_Do_def Let_def
      split: prod.splits sum.splits option.splits if_splits)

lemma getRecords_error:
  assumes "getRecords E c domainID s = (Inl e, s')"
  shows "e \<noteq> errRecordNotFound \<and> \<not> errors_Is e errRecordNotFound"
proof (cases "newJSONRequest E ''GET''
                (JoinPath (baseURL c) [''v1'', ''domains'', domainID, ''records'']) None")
  case (Inl e')
  with assms have "e = e'"
    by (simp add: getRecords_def)
  with newJSONRequest_Inl [OF Inl] show ?thesis
    by auto
next
  case (Inr req)
  with assms have "decoded (dnsClient_do E c req (Some (Unmarshal_recordList E)) s) [] = (Inl e, s')"
    by (simp add: getRecords_def)
  then have "\<exists>s''. dnsClient_do E c req (Some (Unmarshal_recordList E)) s = (Inl e, s'')"
    by (auto simp add: decoded_def split: prod.splits sum.splits option.splits)
  with dnsClient_do_error show ?thesis
    by fastforce
qed

lemma getRecordID_error:
  assumes "getRecordID E c domainID n t s = (Inl e, s')"
  shows "errors_Is e errRecordNotFound \<longleftrightarrow> e = errRecordNotFound"
proof -
  obtain r s'' where Pair: "getRecords E c domainID s = (r, s'')"
    by (rule prod.exhaust)
  show ?thesis
  proof (cases r)
    case (Inl e')
    with Pair assms have "e = e'"
      by (simp add: getRecordID_def)
    with getRecords_error [of E c domainID s e' s''] Pair Inl show ?thesis
      by simp
  next
    case (Inr rs)
    with Pair assms have "getRecordID_loop rs n t = Inl e"
      by (simp add: getRecordID_def)
    then have "e = errRecordNotFound"
      by (simp add: getRecordID_loop_find split: option.splits)
    then show ?thesis by simp
  qed
qed

lemma getRecords_trace:
  "\<exists>sent. snd (snd (getRecords E c domainID s)) = snd s @ sent \<and> length sent \<le> 1 \<and>
          (\<forall>req\<in>set sent. Method req = ''GET'')"
proof (cases "newJSONRequest E ''GET''
                (JoinPath (baseURL c) [''v1'', ''domains'', domainID, ''records'']) None")
  case (Inl e)
  then have "snd (snd (getRecords E c domainID s)) = snd s @ []"
    by (simp add: getRecords_def)
  then show ?thesis by fastforce
next
  case (Inr req)
  then have "snd (snd (getRecords E c domainID s)) = snd s @ [set_auth_token c req]"
    by (simp add: getRecords_def snd_decoded dnsClient_do_trace)
  moreover from newJSONRequest_Inr [OF Inr] have "Method (set_auth_token c req) = ''GET''"
    by (simp add: set_auth_token_fields)
  ultimately show ?thesis by fastforce
qed

lemma getRecordID_trace:
  "\<exists>sent. snd (snd (getRecordID E c domainID n t s)) = snd s @ sent \<and> length sent \<le> 1 \<and>
          (\<forall>req\<in>set sent. Method req = ''GET'')"
proof -
  have "snd (getRecordID E c domainID n t s) = snd (getRecords E c domainID s)"
    by (simp add: getRecordID_def split: prod.splits sum.splits)
  with getRecords_trace [of E c domainID s] show ?thesis
    by simp
qed

lemma SetRecords_loop_append:
  "SetRecords_loop E c d (pre @ rest) s =
     (case SetRecords_loop E c d pre s of
        (Some err, s') \<Rightarrow> (Some err, s')
      | (None, s') \<Rightarrow> SetRecords_loop E c d rest s')"
  by (induction pre arbitrary: s) (simp_all split: prod.splits option.splits)

lemma DeleteRecords_loop_append:
  "DeleteRecords_loop E c d (pre @ rest) s =
     (case DeleteRecords_loop E c d pre s of
        (Some err, s') \<Rightarrow> (Some err, s')
      | (None, s') \<Rightarrow> DeleteRecords_loop E c d rest s')"
  by (induction pre arbitrary: s) (simp_all split: prod.splits option.splits)

lemma SetRecords_step_not_found:
  assumes "convertToConohaDNSRecord E rec = Inr converted"
    and "getRecordID E c d (Name converted) (Type converted) s = (Inl errRecordNotFound, s1)"
  shows "SetRecords_step E c d rec s =
           (case createRecord E c d converted s1 of
              (Inl err, s2) \<Rightarrow> (Some err, s2)
            | (Inr created, s2) \<Rightarrow> (None, s2))"
  using assms by (simp add: SetRecords_step_def)

lemma SetRecords_step_found:
  assumes "convertToConohaDNSRecord E rec = Inr converted"
    and "getRecordID E c d (Name converted) (Type converted) s = (Inr recordID, s1)"
  shows "SetRecords_step E c d rec s =
           (case updateRecord E c d recordID converted s1 of
              (Inl err, s2) \<Rightarrow> (Some err, s2)
            | (Inr updated, s2) \<Rightarrow> (None, s2))"
  using assms by (simp add: SetRecords_step_def)

lemma SetRecords_step_other_error:
  assumes "convertToConohaDNSRecord E rec = Inr converted"
    and "getRecordID E c d (Name converted) (Type converted) s = (Inl err, s1)"
    and "err \<noteq> errRecordNotFound"
  shows "SetRecords_step E c d rec s = (Some err, s1)"
  using assms getRecordID_error [OF assms(2)] by (simp add: SetRecords_step_def)

lemma SetRecords_unfold:
  assumes "initClient E p sa = (Inr c, sb)" and "getDomainID E c zone sb = (Inr d, s0)"
  shows "SetRecords E p zone records sa =
           (case SetRecords_loop E c d records s0 of
              (Some err, s3) \<Rightarrow> (Inl err, s3)
            | (None, s3) \<Rightarrow> (Inr records, s3))"
  using assms by (simp add: SetRecords_def)

lemma SetRecords_success:
  assumes "SetRecords E p zone records sa = (Inr out, sf)"
  shows "out = records"
  using assms
  by (auto simp add: SetRecords_def split: prod.splits sum.splits option.splits)

lemma createRecord_sends:
  "(\<exists>m. createRecord E c d rcd s = (Inl (FailedToCreateJSONBody (External m)), s) \<or>
        createRecord E c d rcd s = (Inl (UnableToCreateRequest (External m)), s)) \<or>
   (\<exists>req. snd (snd (createRecord E c d rcd s)) = snd s @ [req] \<and> Method req = ''POST'' \<and>
      URL req = JoinPath (baseURL c) [''v1'', ''domains'', d, ''records''] \<and>
      Body req = Some (json_conohaDNSRecord rcd))"
proof (cases "newJSONRequest E ''POST''
                (JoinPath (baseURL c) [''v1'', ''domains'', d, ''records''])
                (Some (json_conohaDNSRecord rcd))")
  case (Inl e)
  from newJSONRequest_Inl [OF Inl] obtain m where
    "e = FailedToCreateJSONBody (External m) \<or> e = UnableToCreateRequest (External m)"
    by blast
  with Inl show ?thesis
    by (auto simp add: createRecord_def)
next
  case (Inr req)
  from Inr have "snd (snd (createRecord E c d rcd s)) = snd s @ [set_auth_token c req]"
    by (simp add: createRecord_def snd_decoded dnsClient_do_trace)
  with newJSONRequest_Inr [OF Inr] show ?thesis
    by (auto simp add: set_auth_token_fields)
qed

lemma updateRecord_sends:
  "(\<exists>m. updateRecord E c d recordID rcd s = (Inl (FailedToCreateJSONBody (External m)), s) \<or>
        updateRecord E c d recordID rcd s = (Inl (UnableToCreateRequest (External m)), s)) \<or>
   (\<exists>req. snd (snd (updateRecord E c d recordID rcd s)) = snd s @ [req] \<and>
      Method req = ''PUT'' \<and>
      URL req = JoinPath (baseURL c) [''v1'', ''domains'', d, ''records'', recordID] \<and>
      Body req = Some (json_conohaDNSRecord (rcd\<lparr>TTL := 0\<rparr>)))"
proof (cases "newJSONRequest E ''PUT''
                (JoinPath (baseURL c) [''v1'', ''domains'', d, ''records'', recordID])
                (Some (json_conohaDNSRecord (rcd\<lparr>TTL := 0\<rparr>)))")
  case (Inl e)
  from newJSONRequest_Inl [OF Inl] obtain m where
    "e = FailedToCreateJSONBody (External m) \<or> e = UnableToCreateRequest (External m)"
    by blast
  with Inl show ?thesis
    by (auto simp add: updateRecord_def)
next
  case (Inr req)
  from Inr have "snd (snd (updateRecord E c d recordID rcd s)) = snd s @ [set_auth_token c req]"
    by (simp add: updateRecord_def snd_decoded dnsClient_do_trace)
  with newJSONRequest_Inr [OF Inr] show ?thesis
    by (auto simp add: set_auth_token_fields)
qed

lemma createRecord_trace: "\<exists>tail. snd (snd (createRecord E c d rcd s)) = snd s @ tail"
  using createRecord_sends [of E c d rcd s] by auto

lemma updateRecord_trace: "\<exists>tail. snd (snd (updateRecord E c d recordID rcd s)) = snd s @ tail"
  using updateRecord_sends [of E c d recordID rcd s] by auto

lemma SetRecords_step_trace: "\<exists>tail. snd (snd (SetRecords_step E c d rec s)) = snd s @ tail"
proof (cases "convertToConohaDNSRecord E rec")
  case (Inl e)
  then show ?thesis by (simp add: SetRecords_step_def)
next
  case (Inr converted)
  obtain r s1 where g: "getRecordID E c d (Name converted) (Type converted) s = (r, s1)"
    by (rule prod.exhaust)
  from getRecordID_trace [of E c d "Name converted" "Type converted" s] g
  obtain t1 where t1: "snd s1 = snd s @ t1" by auto
  from createRecord_trace [of E c d converted s1]
  obtain t2 where t2: "snd (snd (createRecord E c d converted s1)) = snd s1 @ t2" by blast
  show ?thesis
  proof (cases r)
    case (Inl e)
    with Inr g t1 t2 show ?thesis
      by (auto simp add: SetRecords_step_def split: prod.splits sum.splits)
  next
    case (Inr recordID)
    from updateRecord_trace [of E c d recordID converted s1]
    obtain t3 where "snd (snd (updateRecord E c d recordID converted s1)) = snd s1 @ t3"
      by blast
    with Inr \<open>convertToConohaDNSRecord E rec = Inr converted\<close> g t1 show ?thesis
      by (auto simp add: SetRecords_step_def split: prod.splits sum.splits)
  qed
qed

lemma SetRecords_loop_trace: "\<exists>tail. snd (snd (SetRecords_loop E c d recs s)) = snd s @ tail"
proof (induction recs arbitrary: s)
  case Nil
  then show ?case by simp
next
  case (Cons rec recs)
  obtain r s' where st: "SetRecords_step E c d rec s = (r, s')"
    by (rule prod.exhaust)
  from SetRecords_step_trace [of E c d rec s] st obtain t1 where t1: "snd s' = snd s @ t1"
    by auto
  show ?case
  proof (cases r)
    case None
    from Cons.IH [of s'] obtain t2 where "snd (snd (SetRecords_loop E c d recs s')) = snd s' @ t2"
      by blast
    with None st t1 show ?thesis by simp
  next
    case (Some e)
    with st t1 show ?thesis by simp
  qed
qed

lemma SetRecords_not_found_sends_POST:
  assumes "SetRecords_loop E c d pre s0 = (None, s)"
    and "convertToConohaDNSRecord E rec = Inr converted"
    and "getRecordID E c d (Name converted) (Type converted) s = (Inl errRecordNotFound, s1)"
  shows "(\<exists>m. SetRecords_loop E c d (pre @ rec # rest) s0 =
               (Some (FailedToCreateJSONBody (External m)), s1) \<or>
             SetRecords_loop E c d (pre @ rec # rest) s0 =
               (Some (UnableToCreateRequest (External m)), s1)) \<or>
         (\<exists>req tail.
            snd (snd (SetRecords_loop E c d (pre @ rec # rest) s0)) = snd s1 @ req # tail \<and>
            Method req = ''POST'' \<and>
            URL req = JoinPath (baseURL c) [''v1'', ''domains'', d, ''records''] \<and>
            Body req = Some (json_conohaDNSRecord converted))"
proof -
  have loop: "SetRecords_loop E c d (pre @ rec # rest) s0 =
      (case createRecord E c d converted s1 of
         (Inl err, s2) \<Rightarrow> (Some err, s2)
       | (Inr created, s2) \<Rightarrow> SetRecords_loop E c d rest s2)"
    using assms
    by (simp add: SetRecords_loop_append SetRecords_step_not_found split: prod.splits sum.splits)
  obtain r2 s2 where cr: "createRecord E c d converted s1 = (r2, s2)"
    by (rule prod.exhaust)
  from createRecord_sends [of E c d converted s1] show ?thesis
  proof
    assume "\<exists>m. createRecord E c d converted s1 = (Inl (FailedToCreateJSONBody (External m)), s1) \<or>
        createRecord E c d converted s1 = (Inl (UnableToCreateRequest (External m)), s1)"
    with loop show ?thesis by auto
  next
    assume "\<exists>req. snd (snd (createRecord E c d converted s1)) = snd s1 @ [req] \<and>
      Method req = ''POST'' \<and>
      URL req = JoinPath (baseURL c) [''v1'', ''domains'', d, ''records''] \<and>
      Body req = Some (json_conohaDNSRecord converted)"
    then obtain req where req: "snd s2 = snd s1 @ [req]" "Method req = ''POST''"
      "URL req = JoinPath (baseURL c) [''v1'', ''domains'', d, ''records'']"
      "Body req = Some (json_conohaDNSRecord converted)"
      using cr by auto
    from SetRecords_loop_trace [of E c d rest s2] obtain tail where
      tail: "snd (snd (SetRecords_loop E c d rest s2)) = snd s2 @ tail" by blast
    have "\<exists>tail'. snd (snd (SetRecords_loop E c d (pre @ rec # rest) s0)) = snd s1 @ req # tail'"
      using loop cr req(1) tail by (cases r2) auto
    with req show ?thesis by blast
  qed
qed

lemma SetRecords_found_sends_PUT:
  assumes "SetRecords_loop E c d pre s0 = (None, s)"
    and "convertToConohaDNSRecord E rec = Inr converted"
    and "getRecordID E c d (Name converted) (Type converted) s = (Inr recordID, s1)"
  shows "(\<exists>m. SetRecords_loop E c d (pre @ rec # rest) s0 =
               (Some (FailedToCreateJSONBody (External m)), s1) \<or>
             SetRecords_loop E c d (pre @ rec # rest) s0 =
               (Some (UnableToCreateRequest (External m)), s1)) \<or>
         (\<exists>req tail.
            snd (snd (SetRecords_loop E c d (pre @ rec # rest) s0)) = snd s1 @ req # tail \<and>
            Method req = ''PUT'' \<and>
            URL req = JoinPath (baseURL c) [''v1'', ''domains'', d, ''records'', recordID] \<and>
            Body req = Some (json_conohaDNSRecord (converted\<lparr>TTL := 0\<rparr>)))"
proof -
  have loop: "SetRecords_loop E c d (pre @ rec # rest) s0 =
      (case updateRecord E c d recordID converted s1 of
         (Inl err, s2) \<Rightarrow> (Some err, s2)
       | (Inr updated, s2) \<Rightarrow> SetRecords_loop E c d rest s2)"
    using assms
    by (simp add: SetRecords_loop_append SetRecords_step_found split: prod.splits sum.splits)
  obtain r2 s2 where cr: "updateRecord E c d recordID converted s1 = (r2, s2)"
    by (rule prod.exhaust)
  from updateRecord_sends [of E c d recordID converted s1] show ?thesis
  proof
    assume "\<exists>m. updateRecord E c d recordID converted s1 =
          (Inl (FailedToCreateJSONBody (External m)), s1) \<or>
        updateRecord E c d recordID converted s1 = (Inl (UnableToCreateRequest (External m)), s1)"
    with loop show ?thesis by auto
  next
    assume "\<exists>req. snd (snd (updateRecord E c d recordID converted s1)) = snd s1 @ [req] \<and>
      Method req = ''PUT'' \<and>
      URL req = JoinPath (baseURL c) [''v1'', ''domains'', d, ''records'', recordID] \<and>
      Body req = Some (json_conohaDNSRecord (converted\<lparr>TTL := 0\<rparr>))"
    then obtain req where req: "snd s2 = snd s1 @ [req]" "Method req = ''PUT''"
      "URL req = JoinPath (baseURL c) [''v1'', ''domains'', d, ''records'', recordID]"
      "Body req = Some (json_conohaDNSRecord (converted\<lparr>TTL := 0\<rparr>))"
      using cr by auto
    from SetRecords_loop_trace [of E c d rest s2] obtain tail where
      tail: "snd (snd (SetRecords_loop E c d rest s2)) = snd s2 @ tail" by blast
    have "\<exists>tail'. snd (snd (SetRecords_loop E c d (pre @ rec # rest) s0)) = snd s1 @ req # tail'"
      using loop cr req(1) tail by (cases r2) auto
    with req show ?thesis by blast
  qed
qed

lemma demo_SetRecords_loop_traces:
  "map (\<lambda>req. (Method req, snd (URL req), Body req))
     (snd (snd (SetRecords_loop demo demo_client ''d1''
        ([] @ TXT ''test'' (1200 * Second) ''updated'' # []) (False, [])))) =
   [(''GET'', [''v1'', ''domains'', ''d1'', ''records''], None),
    (''PUT'', [''v1'', ''domains'', ''d1'', ''records'', ''r1''],
     Some (JObject [(''name'', JString ''test''), (''type'', JString ''TXT''),
                    (''data'', JString ''updated'')]))]"
  "map (\<lambda>req. (Method req, snd (URL req), Body req))
     (snd (snd (SetRecords_loop demo demo_client ''d1''
        ([] @ TXT ''new'' 0 ''x'' # []) (False, [])))) =
   [(''GET'', [''v1'', ''domains'', ''d1'', ''records''], None),
    (''POST'', [''v1'', ''domains'', ''d1'', ''records''],
     Some (JObject [(''name'', JString ''new''), (''type'', JString ''TXT''),
                    (''data'', JString ''x'')]))]"
  by (simp_all add: SetRecords_step_def demo_convertToConohaDNSRecord demo_eval
      json_conohaDNSRecord_def)

text \<open>
  Claim C2. Let \<open>SetRecords\<close> reach a record after the records before it went through,
  and let the record translate. If looking up the ID of an existing record by the name and
  type yields \<open>errRecordNotFound\<close>, the record is created and the loop goes on (or stops
  with the error of the creation): not finding it is no error. Created means that the next
  request on the trace after the lookup is a \<open>POST\<close> to the records of the domain whose
  payload is the translated record, unless that request could not be built, which stops
  the loop with the build error. If the lookup yields an ID, the record of that ID is
  updated: the next request is a \<open>PUT\<close> to that record ID under the records of the domain,
  whose payload is the translated record with its TTL zeroed, with the same exception. If the lookup yields any other error, the loop stops
  there with that error and the rest of the list is not looked at. The call returns the
  error that stopped the loop, and when nothing stopped it the list it was given,
  unchanged.
\<close>

theorem SetRecords_creates_or_updates:
  assumes "SetRecords_loop E c d pre s0 = (None, s)"
    and "convertToConohaDNSRecord E rec = Inr converted"
    and "getRecordID E c d (Name converted) (Type converted) s = (r, s1)"
  shows "(r = Inl errRecordNotFound \<longrightarrow>
            SetRecords_loop E c d (pre @ rec # rest) s0 =
              (case createRecord E c d converted s1 of
                 (Inl err, s2) \<Rightarrow> (Some err, s2)
               | (Inr created, s2) \<Rightarrow> SetRecords_loop E c d rest s2)) \<and>
         (\<forall>recordID. r = Inr recordID \<longrightarrow>
            SetRecords_loop E c d (pre @ rec # rest) s0 =
              (case updateRecord E c d recordID converted s1 of
                 (Inl err, s2) \<Rightarrow> (Some err, s2)
               | (Inr updated, s2) \<Rightarrow> SetRecords_loop E c d rest s2)) \<and>
         (\<forall>err. r = Inl err \<and> err \<noteq> errRecordNotFound \<longrightarrow>
            SetRecords_loop E c d (pre @ rec # rest) s0 = (Some err, s1)) \<and>
         (\<forall>p zone records sa sb.
            initClient E p sa = (Inr c, sb) \<and> getDomainID E c zone sb = (Inr d, s0) \<longrightarrow>
            SetRecords E p zone records sa =
              (case SetRecords_loop E c d records s0 of
                 (Some err, s3) \<Rightarrow> (Inl err, s3)
               | (None, s3) \<Rightarrow> (Inr records, s3))) \<and>
         (\<forall>p zone records sa out sf.
            SetRecords E p zone records sa = (Inr out, sf) \<longrightarrow> out = records) \<and>
         (r = Inl errRecordNotFound \<longrightarrow>
            (\<exists>m. SetRecords_loop E c d (pre @ rec # rest) s0 =
                    (Some (FailedToCreateJSONBody (External m)), s1) \<or>
                  SetRecords_loop E c d (pre @ rec # rest) s0 =
                    (Some (UnableToCreateRequest (External m)), s1)) \<or>
            (\<exists>req tail.
               snd (snd (SetRecords_loop E c d (pre @ rec # rest) s0)) = snd s1 @ req # tail \<and>
               Method req = ''POST'' \<and>
               URL req = JoinPath (baseURL c) [''v1'', ''domains'', d, ''records''] \<and>
               Body req = Some (json_conohaDNSRecord converted))) \<and>
         (\<forall>recordID. r = Inr recordID \<longrightarrow>
            (\<exists>m. SetRecords_loop E c d (pre @ rec # rest) s0 =
                    (Some (FailedToCreateJSONBody (External m)), s1) \<or>
                  SetRecords_loop E c d (pre @ rec # rest) s0 =
                    (Some (UnableToCreateRequest (External m)), s1)) \<or>
            (\<exists>req tail.
               snd (snd (SetRecords_loop E c d (pre @ rec # rest) s0)) = snd s1 @ req # tail \<and>
               Method req = ''PUT'' \<and>
               URL req = JoinPath (baseURL c) [''v1'', ''domains'', d, ''records'', recordID] \<and>
               Body req = Some (json_conohaDNSRecord (converted\<lparr>TTL := 0\<rparr>))))"
proof (intro conjI allI impI)
  assume "r = Inl errRecordNotFound"
  with assms show "SetRecords_loop E c d (pre @ rec # rest) s0 =
              (case createRecord E c d converted s1 of
                 (Inl err, s2) \<Rightarrow> (Some err, s2)
               | (Inr created, s2) \<Rightarrow> SetRecords_loop E c d rest s2)"
    by (simp add: SetRecords_loop_append SetRecords_step_not_found
        split: prod.splits sum.splits)
next
  fix recordID
  assume "r = Inr recordID"
  with assms show "SetRecords_loop E c d (pre @ rec # rest) s0 =
              (case updateRecord E c d recordID converted s1 of
                 (Inl err, s2) \<Rightarrow> (Some err, s2)
               | (Inr updated, s2) \<Rightarrow> SetRecords_loop E c d rest s2)"
    by (simp add: SetRecords_loop_append SetRecords_step_found
        split: prod.splits sum.splits)
next
  fix err
  assume "r = Inl err \<and> err \<noteq> errRecordNotFound"
  with assms show "SetRecords_loop E c d (pre @ rec # rest) s0 = (Some err, s1)"
    by (simp add: SetRecords_loop_append SetRecords_step_other_error)
next
  fix p zone records sa sb
  assume "initClient E p sa = (Inr c, sb) \<and> getDomainID E c zone sb = (Inr d, s0)"
  then show "SetRecords E p zone records sa =
              (case SetRecords_loop E c d records s0 of
                 (Some err, s3) \<Rightarrow> (Inl err, s3)
               | (None, s3) \<Rightarrow> (Inr records, s3))"
    by (simp add: SetRecords_unfold)
next
  fix p zone records sa out sf
  assume "SetRecords E p zone records sa = (Inr out, sf)"
  then show "out = records"
    by (rule SetRecords_success)
next
  assume "r = Inl errRecordNotFound"
  with assms(3) have "getRecordID E c d (Name converted) (Type converted) s =
      (Inl errRecordNotFound, s1)"
    by simp
  from SetRecords_not_found_sends_POST [OF assms(1,2) this]
  show "(\<exists>m. SetRecords_loop E c d (pre @ rec # rest) s0 =
                    (Some (FailedToCreateJSONBody (External m)), s1) \<or>
                  SetRecords_loop E c d (pre @ rec # rest) s0 =
                    (Some (UnableToCreateRequest (External m)), s1)) \<or>
            (\<exists>req tail.
               snd (snd (SetRecords_loop E c d (pre @ rec # rest) s0)) = snd s1 @ req # tail \<and>
               Method req = ''POST'' \<and>
               URL req = JoinPath (baseURL c) [''v1'', ''domains'', d, ''records''] \<and>
               Body req = Some (json_conohaDNSRecord converted))" .
next
  fix recordID
  assume "r = Inr recordID"
  with assms(3) have "getRecordID E c d (Name converted) (Type converted) s =
      (Inr recordID, s1)"
    by simp
  from SetRecords_found_sends_PUT [OF assms(1,2) this]
  show "(\<exists>m. SetRecords_loop E c d (pre @ rec # rest) s0 =
                    (Some (FailedToCreateJSONBody (External m)), s1) \<or>
                  SetRecords_loop E c d (pre @ rec # rest) s0 =
                    (Some (UnableToCreateRequest (External m)), s1)) \<or>
            (\<exists>req tail.
               snd (snd (SetRecords_loop E c d (pre @ rec # rest) s0)) = snd s1 @ req # tail \<and>
               Method req = ''PUT'' \<and>
               URL req = JoinPath (baseURL c) [''v1'', ''domains'', d, ''records'', recordID] \<and>
               Body req = Some (json_conohaDNSRecord (converted\<lparr>TTL := 0\<rparr>)))" .
qed

theorem SetRecords_creates_or_updates_witness:
  "(\<exists>s1. SetRecords_loop demo demo_client ''d1'' [] (False, []) = (None, (False, [])) \<and>
      convertToConohaDNSRecord demo (TXT ''test'' (1200 * Second) ''updated'') = Inr demo_put_r1 \<and>
      getRecordID demo demo_client ''d1'' (Name demo_put_r1) (Type demo_put_r1) (False, []) =
        (Inr ''r1'', s1) \<and>
      fst (SetRecords_loop demo demo_client ''d1''
             ([] @ TXT ''test'' (1200 * Second) ''updated'' # []) (False, [])) = None) \<and>
   (\<exists>s1. convertToConohaDNSRecord demo (TXT ''new'' 0 ''x'') = Inr demo_new \<and>
      getRecordID demo demo_client ''d1'' (Name demo_new) (Type demo_new) (False, []) =
        (Inl errRecordNotFound, s1) \<and>
      fst (SetRecords_loop demo demo_client ''d1'' ([] @ TXT ''new'' 0 ''x'' # []) (False, [])) =
        None) \<and>
   (\<exists>s1. SetRecords_loop demo demo_client ''dX'' [] (False, []) = (None, (False, [])) \<and>
      getRecordID demo demo_client ''dX'' (Name demo_put_r1) (Type demo_put_r1) (False, []) =
        (Inl (ErrorStatus 404 ''not found''), s1) \<and>
      SetRecords_loop demo demo_client ''dX''
        ([] @ TXT ''test'' (1200 * Second) ''updated'' # [TXT ''new'' 0 ''x'']) (False, []) =
        (Some (ErrorStatus 404 ''not found''), s1)) \<and>
   (\<exists>sb s0 sf.
      initClient demo (demo_provider ''secret'') (False, []) = (Inr demo_client, sb) \<and>
      getDomainID demo demo_client ''example.localhost'' sb = (Inr ''d1'', s0) \<and>
      SetRecords demo (demo_provider ''secret'') ''example.localhost''
        [TXT ''test'' (1200 * Second) ''updated'', TXT ''new'' 0 ''x''] (False, []) =
        (Inr [TXT ''test'' (1200 * Second) ''updated'', TXT ''new'' 0 ''x''], sf)) \<and>
   map (\<lambda>req. (Method req, snd (URL req), Body req))
     (snd (snd (SetRecords_loop demo demo_client ''d1''
        ([] @ TXT ''test'' (1200 * Second) ''updated'' # []) (False, [])))) =
   [(''GET'', [''v1'', ''domains'', ''d1'', ''records''], None),
    (''PUT'', [''v1'', ''domains'', ''d1'', ''records'', ''r1''],
     Some (JObject [(''name'', JString ''test''), (''type'', JString ''TXT''),
                    (''data'', JString ''updated'')]))] \<and>
   map (\<lambda>req. (Method req, snd (URL req), Body req))
     (snd (snd (SetRecords_loop demo demo_client ''d1''
        ([] @ TXT ''new'' 0 ''x'' # []) (False, [])))) =
   [(''GET'', [''v1'', ''domains'', ''d1'', ''records''], None),
    (''POST'', [''v1'', ''domains'', ''d1'', ''records''],
     Some (JObject [(''name'', JString ''new''), (''type'', JString ''TXT''),
                    (''data'', JString ''x'')]))] \<and>
   map Method
     (snd (snd (SetRecords demo (demo_provider ''secret'') ''example.localhost''
        [TXT ''test'' (1200 * Second) ''updated'', TXT ''new'' 0 ''x''] (False, [])))) =
   [''POST'', ''GET'', ''GET'', ''PUT'', ''GET'', ''POST'']"
proof (intro conjI)
  have nt: "Name demo_put_r1 = ''test''" "Type demo_put_r1 = ''TXT''"
    "Name demo_new = ''new''" "Type demo_new = ''TXT''"
    by (simp_all add: demo_put_r1_def demo_new_def)
  have l0: "\<And>d. SetRecords_loop demo demo_client d [] (False, []) = (None, (False, []))"
    by simp
  {
    obtain s1 where g: "getRecordID demo demo_client ''d1'' (Name demo_put_r1)
        (Type demo_put_r1) (False, []) = (Inr ''r1'', s1)"
      using demo_getRecordID(1) [of "(False, [])"] nt by auto
    obtain s2 where u: "updateRecord demo demo_client ''d1'' ''r1'' demo_put_r1 s1 =
        (Inr (demo_r1\<lparr>Data := ''updated'', TTL := 0\<rparr>), s2)"
      using demo_updateRecord [of s1] by auto
    from SetRecords_creates_or_updates [OF l0 demo_convertToConohaDNSRecord(1) g, of "[]",
        THEN conjunct2, THEN conjunct1, THEN spec, THEN mp, OF refl] u
    have "fst (SetRecords_loop demo demo_client ''d1''
             ([] @ TXT ''test'' (1200 * Second) ''updated'' # []) (False, [])) = None"
      by simp
    with l0 demo_convertToConohaDNSRecord(1) g
    show "\<exists>s1. SetRecords_loop demo demo_client ''d1'' [] (False, []) = (None, (False, [])) \<and>
      convertToConohaDNSRecord demo (TXT ''test'' (1200 * Second) ''updated'') = Inr demo_put_r1 \<and>
      getRecordID demo demo_client ''d1'' (Name demo_put_r1) (Type demo_put_r1) (False, []) =
        (Inr ''r1'', s1) \<and>
      fst (SetRecords_loop demo demo_client ''d1''
             ([] @ TXT ''test'' (1200 * Second) ''updated'' # []) (False, [])) = None"
      by blast
  }
  {
    obtain s1 where g: "getRecordID demo demo_client ''d1'' (Name demo_new) (Type demo_new)
        (False, []) = (Inl errRecordNotFound, s1)"
      using demo_getRecordID(2) [of "(False, [])"] nt by auto
    obtain s2 where cr: "createRecord demo demo_client ''d1'' demo_new s1 =
        (Inr \<lparr>UUID = ''r5'', Name = ''new'', Type = ''TXT'', Data = ''x'', TTL = 0\<rparr>, s2)"
      using demo_createRecord [of s1] by auto
    from SetRecords_creates_or_updates [OF l0 demo_convertToConohaDNSRecord(2) g, of "[]",
        THEN conjunct1, THEN mp, OF refl] cr
    have "fst (SetRecords_loop demo demo_client ''d1'' ([] @ TXT ''new'' 0 ''x'' # [])
        (False, [])) = None"
      by simp
    with demo_convertToConohaDNSRecord(2) g
    show "\<exists>s1. convertToConohaDNSRecord demo (TXT ''new'' 0 ''x'') = Inr demo_new \<and>
      getRecordID demo demo_client ''d1'' (Name demo_new) (Type demo_new) (False, []) =
        (Inl errRecordNotFound, s1) \<and>
      fst (SetRecords_loop demo demo_client ''d1'' ([] @ TXT ''new'' 0 ''x'' # []) (False, [])) =
        None"
      by blast
  }
  {
    obtain s1 where g: "getRecordID demo demo_client ''dX'' (Name demo_put_r1)
        (Type demo_put_r1) (False, []) = (Inl (ErrorStatus 404 ''not found''), s1)"
      using demo_getRecordID(3) [of "(False, [])"] nt by auto
    have ne: "Inl (ErrorStatus 404 ''not found'') = Inl (ErrorStatus 404 ''not found'') \<and>
        ErrorStatus 404 ''not found'' \<noteq> errRecordNotFound"
      by simp
    from SetRecords_creates_or_updates [OF l0 demo_convertToConohaDNSRecord(1) g,
        of "[TXT ''new'' 0 ''x'']",
        THEN conjunct2, THEN conjunct2, THEN conjunct1, THEN spec, THEN mp, OF ne]
    have "SetRecords_loop demo demo_client ''dX''
        ([] @ TXT ''test'' (1200 * Second) ''updated'' # [TXT ''new'' 0 ''x'']) (False, []) =
        (Some (ErrorStatus 404 ''not found''), s1)" .
    with l0 g
    show "\<exists>s1. SetRecords_loop demo demo_client ''dX'' [] (False, []) = (None, (False, [])) \<and>
      getRecordID demo demo_client ''dX'' (Name demo_put_r1) (Type demo_put_r1) (False, []) =
        (Inl (ErrorStatus 404 ''not found''), s1) \<and>
      SetRecords_loop demo demo_client ''dX''
        ([] @ TXT ''test'' (1200 * Second) ''updated'' # [TXT ''new'' 0 ''x'']) (False, []) =
        (Some (ErrorStatus 404 ''not found''), s1)"
      by blast
  }
  {
    let ?recs = "[TXT ''test'' (1200 * Second) ''updated'', TXT ''new'' 0 ''x'']"
    obtain sb where i: "initClient demo (demo_provider ''secret'') (False, []) =
        (Inr demo_client, sb)" and wb: "fst sb = False"
      using demo_initClient [of "(False, [])"] by auto
    obtain s0 where dm: "getDomainID demo demo_client ''example.localhost'' sb = (Inr ''d1'', s0)"
      and w0: "fst s0 = False"
      using demo_getDomainID(1) [of sb] wb by auto
    obtain s1 where g1: "getRecordID demo demo_client ''d1'' ''test'' ''TXT'' s0 = (Inr ''r1'', s1)"
      and w1: "fst s1 = False"
      using demo_getRecordID(1) [of s0] w0 by auto
    obtain s2 where u: "updateRecord demo demo_client ''d1'' ''r1'' demo_put_r1 s1 =
        (Inr (demo_r1\<lparr>Data := ''updated'', TTL := 0\<rparr>), s2)" and w2: "fst s2 = False"
      using demo_updateRecord [of s1] w1 by auto
    obtain s3 where g2: "getRecordID demo demo_client ''d1'' ''new'' ''TXT'' s2 =
        (Inl errRecordNotFound, s3)"
      using demo_getRecordID(2) [of s2] by auto
    obtain s4 where cr: "createRecord demo demo_client ''d1'' demo_new s3 =
        (Inr \<lparr>UUID = ''r5'', Name = ''new'', Type = ''TXT'', Data = ''x'', TTL = 0\<rparr>, s4)"
      using demo_createRecord [of s3] by auto
    have loop: "SetRecords_loop demo demo_client ''d1'' ?recs s0 = (None, s4)"
      using g1 u g2 cr nt
      by (simp add: SetRecords_step_def demo_convertToConohaDNSRecord)
    have l0': "SetRecords_loop demo demo_client ''d1'' [] s0 = (None, s0)"
      by simp
    have g1': "getRecordID demo demo_client ''d1'' (Name demo_put_r1) (Type demo_put_r1) s0 =
        (Inr ''r1'', s1)"
      using g1 nt by simp
    have "initClient demo (demo_provider ''secret'') (False, []) = (Inr demo_client, sb) \<and>
        getDomainID demo demo_client ''example.localhost'' sb = (Inr ''d1'', s0)"
      using i dm by simp
    from SetRecords_creates_or_updates [OF l0' demo_convertToConohaDNSRecord(1) g1',
        THEN conjunct2, THEN conjunct2, THEN conjunct2, THEN conjunct1, rule_format, OF this,
        of ?recs] loop
    have "SetRecords demo (demo_provider ''secret'') ''example.localhost'' ?recs (False, []) =
        (Inr ?recs, s4)"
      by simp
    with i dm show "\<exists>sb s0 sf.
      initClient demo (demo_provider ''secret'') (False, []) = (Inr demo_client, sb) \<and>
      getDomainID demo demo_client ''example.localhost'' sb = (Inr ''d1'', s0) \<and>
      SetRecords demo (demo_provider ''secret'') ''example.localhost'' ?recs (False, []) =
        (Inr ?recs, sf)"
      by blast
  }
  show "map (\<lambda>req. (Method req, snd (URL req), Body req))
     (snd (snd (SetRecords_loop demo demo_client ''d1''
        ([] @ TXT ''test'' (1200 * Second) ''updated'' # []) (False, [])))) =
   [(''GET'', [''v1'', ''domains'', ''d1'', ''records''], None),
    (''PUT'', [''v1'', ''domains'', ''d1'', ''records'', ''r1''],
     Some (JObject [(''name'', JString ''test''), (''type'', JString ''TXT''),
                    (''data'', JString ''updated'')]))]"
    by (rule demo_SetRecords_loop_traces)
  show "map (\<lambda>req. (Method req, snd (URL req), Body req))
     (snd (snd (SetRecords_loop demo demo_client ''d1''
        ([] @ TXT ''new'' 0 ''x'' # []) (False, [])))) =
   [(''GET'', [''v1'', ''domains'', ''d1'', ''records''], None),
    (''POST'', [''v1'', ''domains'', ''d1'', ''records''],
     Some (JObject [(''name'', JString ''new''), (''type'', JString ''TXT''),
                    (''data'', JString ''x'')]))]"
    by (rule demo_SetRecords_loop_traces)
  show "map Method
     (snd (snd (SetRecords demo (demo_provider ''secret'') ''example.localhost''
        [TXT ''test'' (1200 * Second) ''updated'', TXT ''new'' 0 ''x''] (False, [])))) =
   [''POST'', ''GET'', ''GET'', ''PUT'', ''GET'', ''POST'']"
    by (simp add: SetRecords_def SetRecords_step_def demo_convertToConohaDNSRecord demo_eval
        json_conohaDNSRecord_def initClient_def newIdentifier_def getToken_def identifier_do_def
        demo_provider_def Header_Get_def CanonicalMIMEHeaderKey_x_subject_token_def
        newDnsClient_def getDomainID_def getDomains_def)
qed

lemma DeleteRecords_step_resolution_failure:
  assumes "convertToConohaDNSRecord E rec = Inr converted"
    and "getRecordID E c d (Name converted) (Type converted) s = (Inl err, s1)"
  shows "DeleteRecords_step E c d rec s = (Some err, s1)"
  using assms by (simp add: DeleteRecords_step_def)

lemma DeleteRecords_unfold:
  assumes "initClient E p sa = (Inr c, sb)" and "getDomainID E c zone sb = (Inr d, s0)"
  shows "DeleteRecords E p zone records sa =
           (case DeleteRecords_loop E c d records s0 of
              (Some err, s3) \<Rightarrow> (Inl err, s3)
            | (None, s3) \<Rightarrow> (Inr records, s3))"
  using assms by (simp add: DeleteRecords_def)

text \<open>
  Claim C5. Let \<open>DeleteRecords\<close> reach a record after the records before it were deleted,
  and let the record translate. If looking up its ID fails, with \<open>errRecordNotFound\<close> or
  with any other error, the loop stops there and the call returns that error; the rest of
  the list is not looked at. The state returned is the one the lookup left: since the
  deletions before it the call has sent at most the one \<open>GET\<close> of the lookup, so nothing
  undoes them. The run below deletes the first record of its list and fails on the
  second: the remote has lost the record, and the call returns an error.
\<close>

theorem DeleteRecords_aborts_on_resolution_failure:
  assumes "DeleteRecords_loop E c d pre s0 = (None, s)"
    and "convertToConohaDNSRecord E rec = Inr converted"
    and "getRecordID E c d (Name converted) (Type converted) s = (Inl err, s1)"
  shows "DeleteRecords_loop E c d (pre @ rec # rest) s0 = (Some err, s1) \<and>
         (\<exists>sent. snd s1 = snd s @ sent \<and> length sent \<le> 1 \<and>
                 (\<forall>req\<in>set sent. Method req = ''GET'')) \<and>
         (\<forall>p zone sa sb.
            initClient E p sa = (Inr c, sb) \<and> getDomainID E c zone sb = (Inr d, s0) \<longrightarrow>
            DeleteRecords E p zone (pre @ rec # rest) sa = (Inl err, s1))"
proof -
  have loop: "DeleteRecords_loop E c d (pre @ rec # rest) s0 = (Some err, s1)"
    using assms
    by (simp add: DeleteRecords_loop_append DeleteRecords_step_resolution_failure)
  have trace: "\<exists>sent. snd s1 = snd s @ sent \<and> length sent \<le> 1 \<and>
                 (\<forall>req\<in>set sent. Method req = ''GET'')"
    using getRecordID_trace [of E c d "Name converted" "Type converted" s] assms(3)
    by simp
  have call: "\<forall>p zone sa sb.
            initClient E p sa = (Inr c, sb) \<and> getDomainID E c zone sb = (Inr d, s0) \<longrightarrow>
            DeleteRecords E p zone (pre @ rec # rest) sa = (Inl err, s1)"
    using loop by (simp add: DeleteRecords_def)
  from loop trace call show ?thesis by blast
qed

theorem DeleteRecords_aborts_on_resolution_failure_witness:
  "\<exists>sb s0 s s1.
     initClient demo (demo_provider ''secret'') (False, []) = (Inr demo_client, sb) \<and>
     getDomainID demo demo_client ''example.localhost'' sb = (Inr ''d1'', s0) \<and>
     fst s0 = False \<and>
     DeleteRecords_loop demo demo_client ''d1'' [TXT ''test'' (1200 * Second) ''testval1''] s0 =
       (None, s) \<and>
     fst s = True \<and>
     convertToConohaDNSRecord demo (TXT ''test'' (1200 * Second) ''testval1'') = Inr demo_del \<and>
     getRecordID demo demo_client ''d1'' (Name demo_del) (Type demo_del) s =
       (Inl errRecordNotFound, s1) \<and>
     DeleteRecords demo (demo_provider ''secret'') ''example.localhost''
       ([TXT ''test'' (1200 * Second) ''testval1''] @
        TXT ''test'' (1200 * Second) ''testval1'' # []) (False, []) =
       (Inl errRecordNotFound, s1) \<and>
     fst s1 = True"
proof -
  let ?rec = "TXT ''test'' (1200 * Second) ''testval1'' :: (demo_addr, RR) libdns_Record"
  have nt: "Name demo_del = ''test''" "Type demo_del = ''TXT''"
    by (simp_all add: demo_del_def)
  obtain sb where i: "initClient demo (demo_provider ''secret'') (False, []) =
      (Inr demo_client, sb)" and wb: "fst sb = False"
    using demo_initClient [of "(False, [])"] by auto
  obtain s0 where dm: "getDomainID demo demo_client ''example.localhost'' sb = (Inr ''d1'', s0)"
    and w0: "fst s0 = False"
    using demo_getDomainID(1) [of sb] wb by auto
  obtain sa where g1: "getRecordID demo demo_client ''d1'' ''test'' ''TXT'' s0 = (Inr ''r1'', sa)"
    using demo_getRecordID(1) [of s0] w0 by auto
  obtain s where dl: "deleteRecord demo demo_client ''d1'' ''r1'' sa = (None, s)"
    and w: "fst s = True"
    using demo_deleteRecord [of sa] by auto
  have pre: "DeleteRecords_loop demo demo_client ''d1'' [?rec] s0 = (None, s)"
    using g1 dl nt by (simp add: DeleteRecords_step_def demo_convert_del)
  obtain s1 where g2: "getRecordID demo demo_client ''d1'' (Name demo_del) (Type demo_del) s =
      (Inl errRecordNotFound, s1)" and w1: "fst s1 = True"
    using demo_getRecordID(1) [of s] w nt by auto
  have "initClient demo (demo_provider ''secret'') (False, []) = (Inr demo_client, sb) \<and>
      getDomainID demo demo_client ''example.localhost'' sb = (Inr ''d1'', s0)"
    using i dm by simp
  from DeleteRecords_aborts_on_resolution_failure [OF pre demo_convert_del g2, of "[]",
      THEN conjunct2, THEN conjunct2, rule_format, OF this]
  have "DeleteRecords demo (demo_provider ''secret'') ''example.localhost''
       ([?rec] @ ?rec # []) (False, []) = (Inl errRecordNotFound, s1)" .
  with i dm w0 pre w demo_convert_del g2 w1 show ?thesis
    by blast
qed

end
